theory Spec2Isabelle
  imports Complex_Main
begin

section \<open>Data model\<close>

text \<open>
  The C sources compute with \<open>double\<close>. The embedding reads every \<open>double\<close> as a
  real number: rounding, infinities and NaN are outside the model, except where the
  code divides by a value that may be zero, which is written out below. C \<open>int\<close>
  values are integers; the counters of the gateway never exceed the number of rays,
  which is itself an \<open>int\<close>, so no wrap-around can occur in them.
\<close>

type_synonym vec3 = "real \<times> real \<times> real"

text \<open>
  The struct declarations live in \<open>ray_tracing_core3D.h\<close>, which is not among the
  sources; the records carry the fields that the source files read and write.
\<close>

record Ray3D =
  position :: vec3
  direction :: vec3
  nScatters :: int
  on_surface :: int
  on_element :: int

record AnalytSphere =
  sphere_c :: vec3
  sphere_r :: real
  surf_index :: int

text \<open>
  The out-parameters \<open>min_dist\<close>, \<open>nearest_inter\<close>, \<open>nearest_n\<close>, \<open>tri_hit\<close> and
  \<open>which_surface\<close> are passed by address through all three intersection routines;
  together they form the nearest-hit record.
\<close>

record Nearest =
  min_dist :: real
  nearest_inter :: vec3
  nearest_n :: vec3
  tri_hit :: int
  which_surface :: int

section \<open>Vector helpers\<close>

text \<open>
  Modelled from the spec: \<open>dot\<close>, \<open>propagate\<close> and \<open>normalise\<close> are defined in
  \<open>small_functions3D.c\<close>, which is not among the sources. The spec gives
  \<open>propagate(origin, dir, t) = origin + t * dir\<close>; \<open>normalise\<close> divides a vector by
  its Euclidean norm.
\<close>

fun dot :: "vec3 \<Rightarrow> vec3 \<Rightarrow> real" where
  "dot (a0, a1, a2) (b0, b1, b2) = a0 * b0 + a1 * b1 + a2 * b2"

fun vsub :: "vec3 \<Rightarrow> vec3 \<Rightarrow> vec3" where
  "vsub (a0, a1, a2) (b0, b1, b2) = (a0 - b0, a1 - b1, a2 - b2)"

fun vadd :: "vec3 \<Rightarrow> vec3 \<Rightarrow> vec3" where
  "vadd (a0, a1, a2) (b0, b1, b2) = (a0 + b0, a1 + b1, a2 + b2)"

fun vscale :: "real \<Rightarrow> vec3 \<Rightarrow> vec3" where
  "vscale k (a0, a1, a2) = (k * a0, k * a1, k * a2)"

fun propagate :: "vec3 \<Rightarrow> vec3 \<Rightarrow> real \<Rightarrow> vec3" where
  "propagate (e0, e1, e2) (d0, d1, d2) t = (e0 + t * d0, e1 + t * d1, e2 + t * d2)"

fun normalise :: "vec3 \<Rightarrow> vec3" where
  "normalise (v0, v1, v2) =
     (let magnitude = sqrt (v0 * v0 + v1 * v1 + v2 * v2)
      in (v0 / magnitude, v1 / magnitude, v2 / magnitude))"

section \<open>Ray-sphere intersection: \<open>scatterSphere\<close>\<close>

text \<open>
  The locals \<open>beta\<close>, \<open>gamma\<close> and \<open>distance\<close> of \<open>scatterSphere\<close>, with the
  expressions of the source.
\<close>

definition sphere_beta :: "Ray3D \<Rightarrow> AnalytSphere \<Rightarrow> real" where
  "sphere_beta the_ray the_sphere =
     (case position the_ray of (e0, e1, e2) \<Rightarrow>
      case direction the_ray of (d0, d1, d2) \<Rightarrow>
      case sphere_c the_sphere of (a, b, c) \<Rightarrow>
        2 * (d0 * (e0 - a) + d1 * (e1 - b) + d2 * (e2 - c)))"

definition sphere_gamma :: "Ray3D \<Rightarrow> AnalytSphere \<Rightarrow> real" where
  "sphere_gamma the_ray the_sphere =
     (case position the_ray of (e0, e1, e2) \<Rightarrow>
      case sphere_c the_sphere of (a, b, c) \<Rightarrow>
        - sphere_r the_sphere * sphere_r the_sphere - 2 * e0 * a - 2 * e1 * b -
          2 * e2 * c + e0 * e0 + e1 * e1 + e2 * e2 + a * a + b * b + c * c)"

definition sphere_discriminant :: "Ray3D \<Rightarrow> AnalytSphere \<Rightarrow> real" where
  "sphere_discriminant the_ray the_sphere =
     sphere_beta the_ray the_sphere * sphere_beta the_ray the_sphere -
       4 * sphere_gamma the_ray the_sphere"

definition sphere_distance :: "Ray3D \<Rightarrow> AnalytSphere \<Rightarrow> real" where
  "sphere_distance the_ray the_sphere =
     (- sphere_beta the_ray the_sphere - sqrt (sphere_discriminant the_ray the_sphere)) / 2"

text \<open>
  \<open>scatterSphere\<close> returns the nearest-hit record and \<open>meets_sphere\<close>. The normal is
  divided by \<open>sphere_r\<close>, which the data model requires to be positive.
\<close>

definition scatterSphere :: "Ray3D \<Rightarrow> AnalytSphere \<Rightarrow> Nearest \<Rightarrow> Nearest \<times> int" where
  "scatterSphere the_ray the_sphere st =
     (let e = position the_ray; d = direction the_ray
      in if sphere_discriminant the_ray the_sphere < 0 then (st, 0)
         else
           let distance = sphere_distance the_ray the_sphere
           in if distance * distance < min_dist st \<and> distance > 0 then
                (st\<lparr>nearest_n :=
                       normalise
                         (case vsub (propagate e d distance) (sphere_c the_sphere) of
                            (n0, n1, n2) \<Rightarrow>
                              (n0 / sphere_r the_sphere, n1 / sphere_r the_sphere,
                               n2 / sphere_r the_sphere)),
                     nearest_inter := propagate e d distance,
                     min_dist := distance * distance,
                     tri_hit := - 1,
                     which_surface := AnalytSphere.surf_index the_sphere\<rparr>, 1)
              else (st, 0))"

section \<open>Triangulated surfaces: \<open>scatterTriag\<close>\<close>

text \<open>
  A triangulated surface as the spec's data model has it: vertices, faces as triples
  of 0-based vertex indices, one normal per face. Scene construction guarantees that
  every index is in range.
\<close>

record Surface3D =
  n_faces :: int
  vertices :: "vec3 list"
  faces :: "(nat \<times> nat \<times> nat) list"
  normals :: "vec3 list"
  surf_index :: int

text \<open>
  Modelled from the spec: \<open>get_element3D\<close> is declared in \<open>ray_tracing_core3D.h\<close>,
  which is not among the sources. The spec gives
  \<open>get_element(surface, j) \<rightarrow> (a, b, c, normal)\<close>: the three vertices of face \<open>j\<close> and
  its normal.
\<close>

definition get_element3D :: "Surface3D \<Rightarrow> int \<Rightarrow> vec3 \<times> vec3 \<times> vec3 \<times> vec3" where
  "get_element3D sample j =
     (case faces sample ! nat j of (i0, i1, i2) \<Rightarrow>
        (vertices sample ! i0, vertices sample ! i1, vertices sample ! i2,
         normals sample ! nat j))"

type_synonym mat3 = "vec3 \<times> vec3 \<times> vec3"

fun det3 :: "mat3 \<Rightarrow> real" where
  "det3 ((a00, a01, a02), (a10, a11, a12), (a20, a21, a22)) =
     a00 * (a11 * a22 - a12 * a21) - a01 * (a10 * a22 - a12 * a20) +
     a02 * (a10 * a21 - a11 * a20)"

fun mat_vec :: "mat3 \<Rightarrow> vec3 \<Rightarrow> vec3" where
  "mat_vec (r0, r1, r2) u = (dot r0 u, dot r1 u, dot r2 u)"

fun cramer :: "mat3 \<Rightarrow> vec3 \<Rightarrow> vec3" where
  "cramer ((a00, a01, a02), (a10, a11, a12), (a20, a21, a22)) (v0, v1, v2) =
     (let D = det3 ((a00, a01, a02), (a10, a11, a12), (a20, a21, a22))
      in (det3 ((v0, a01, a02), (v1, a11, a12), (v2, a21, a22)) / D,
          det3 ((a00, v0, a02), (a10, v1, a12), (a20, v2, a22)) / D,
          det3 ((a00, a01, v0), (a10, a11, v1), (a20, a21, v2)) / D))"

text \<open>
  Modelled from the spec: \<open>solve3x3\<close> is defined in \<open>small_functions3D.c\<close>, which is
  not among the sources. The spec gives \<open>solve3x3(A, v, \<epsilon>)\<close> returning \<open>(u, ok)\<close>
  where \<open>ok\<close> is false iff \<open>|det A| \<le> \<epsilon>\<close>, and \<open>u\<close> solves \<open>A u = v\<close>. As at the call
  site, the third argument is the buffer \<open>u\<close>, which is left as it is on failure.
\<close>

definition solve3x3 :: "mat3 \<Rightarrow> vec3 \<Rightarrow> vec3 \<Rightarrow> real \<Rightarrow> vec3 \<times> int" where
  "solve3x3 AA u v epsilon =
     (if \<bar>det3 AA\<bar> \<le> epsilon then (u, 0) else (cramer AA v, 1))"

text \<open>The matrix \<open>AA\<close> of \<open>scatterTriag\<close>: columns \<open>a - b\<close>, \<open>a - c\<close> and \<open>d\<close>.\<close>

fun triag_matrix :: "vec3 \<Rightarrow> vec3 \<Rightarrow> vec3 \<Rightarrow> vec3 \<Rightarrow> mat3" where
  "triag_matrix (a0, a1, a2) (b0, b1, b2) (c0, c1, c2) (d0, d1, d2) =
     ((a0 - b0, a0 - c0, d0), (a1 - b1, a1 - c1, d1), (a2 - b2, a2 - c2, d2))"

definition epsilon :: real where
  "epsilon = 0.0000000001"

text \<open>
  The body of the loop over the faces, for face \<open>j\<close>. The state is the nearest-hit
  record together with \<open>meets\<close>; every \<open>continue\<close> returns the state as it is.
\<close>

definition scatterTriag_face ::
    "Ray3D \<Rightarrow> Surface3D \<Rightarrow> int \<Rightarrow> Nearest \<times> int \<Rightarrow> Nearest \<times> int" where
  "scatterTriag_face the_ray sample j s =
     (let e = position the_ray; d = direction the_ray
      in if on_element the_ray = j \<and> on_surface the_ray = Surface3D.surf_index sample
         then s
         else
           case get_element3D sample j of (a, b, c, normal) \<Rightarrow>
             if dot normal d > 0 then s
             else if dot (vsub a e) d < 0 \<and> dot (vsub b e) d < 0 \<and> dot (vsub c e) d < 0
             then s
             else
               case solve3x3 (triag_matrix a b c d) (0, 0, 0) (vsub a e) epsilon of
                 (u, success) \<Rightarrow>
                   if success = 0 then s
                   else
                     case u of (u0, u1, u2) \<Rightarrow>
                       if u0 \<ge> 0 \<and> u1 \<ge> 0 \<and> u0 + u1 \<le> 1 \<and> u2 > 0 then
                         let new_loc = propagate e d u2;
                             movment = vsub new_loc e;
                             dist = dot movment movment
                         in if dist < min_dist (fst s) then
                              ((fst s)\<lparr>min_dist := dist,
                                       tri_hit := j,
                                       nearest_n := normal,
                                       nearest_inter := new_loc,
                                       which_surface := Surface3D.surf_index sample\<rparr>, 1)
                            else (fst s, 1)
                       else s)"

function scatterTriag_loop ::
    "Ray3D \<Rightarrow> Surface3D \<Rightarrow> int \<Rightarrow> Nearest \<times> int \<Rightarrow> Nearest \<times> int" where
  "scatterTriag_loop the_ray sample j s =
     (if j < n_faces sample
      then scatterTriag_loop the_ray sample (j + 1) (scatterTriag_face the_ray sample j s)
      else s)"
  by pat_completeness auto
termination
  by (relation "measure (\<lambda>(the_ray, sample, j, s). nat (n_faces sample - j))") auto

definition scatterTriag :: "Ray3D \<Rightarrow> Surface3D \<Rightarrow> Nearest \<Rightarrow> int \<Rightarrow> Nearest \<times> int" where
  "scatterTriag the_ray sample st meets = scatterTriag_loop the_ray sample 0 (st, meets)"

section \<open>The back wall with several apertures: \<open>multiBackWall\<close>\<close>

text \<open>
  Of the struct \<open>BackWall\<close> only the aperture centre and the aperture axes are read
  by \<open>multiBackWall\<close>. \<open>NBackWall\<close> carries the ordered aperture set.
\<close>

record BackWall =
  aperture_c :: "real \<times> real"
  aperture_axes :: "real \<times> real"

record NBackWall =
  n_detect :: int
  apertures :: "BackWall list"
  circle_plate_r :: real
  plate_represent :: int
  surf_index :: int

text \<open>
  Modelled from the spec: \<open>get_nth_aperture\<close> is declared in
  \<open>ray_tracing_core3D.h\<close>, which is not among the sources. The spec gives the aperture
  set as an ordered sequence; the function selects its \<open>i\<close>-th member (0-based).
\<close>

definition get_nth_aperture :: "int \<Rightarrow> NBackWall \<Rightarrow> BackWall" where
  "get_nth_aperture i wallPlate = apertures wallPlate ! nat i"

text \<open>
  The value of \<open>test\<close> for one aperture. The squared displacements are non-negative, so
  with a zero axis the C division yields \<open>+inf\<close> or NaN, and \<open>test < 1\<close> is false for
  both: \<open>None\<close> stands for these values.
\<close>

definition aperture_test :: "vec3 \<Rightarrow> BackWall \<Rightarrow> real option" where
  "aperture_test wall_hit plate =
     (case wall_hit of (w0, w1, w2) \<Rightarrow>
      case aperture_c plate of (c0, c1) \<Rightarrow>
      case aperture_axes plate of (ax0, ax1) \<Rightarrow>
        let x_disp = w0 - c0; y_disp = w2 - c1
        in if 0.25 * ax0 * ax0 = 0 \<or> 0.25 * ax1 * ax1 = 0 then None
           else Some (x_disp * x_disp / (0.25 * ax0 * ax0) +
                      y_disp * y_disp / (0.25 * ax1 * ax1)))"

definition below_one :: "real option \<Rightarrow> bool" where
  "below_one test = (case test of None \<Rightarrow> False | Some v \<Rightarrow> v < 1)"

text \<open>
  The loop over the apertures, from index \<open>i\<close>; it returns \<open>test\<close> and
  \<open>which_aperture\<close> as they are when the loop is left, by \<open>break\<close> or at its end.
\<close>

function aperture_loop ::
    "NBackWall \<Rightarrow> vec3 \<Rightarrow> int \<Rightarrow> real option \<Rightarrow> int \<Rightarrow> real option \<times> int" where
  "aperture_loop wallPlate wall_hit i test which_aperture =
     (if i < n_detect wallPlate then
        let plate = get_nth_aperture i wallPlate;
            test' = aperture_test wall_hit plate
        in if below_one test' then (test', i + 1)
           else aperture_loop wallPlate wall_hit (i + 1) test' which_aperture
      else (test, which_aperture))"
  by pat_completeness auto
termination
  by (relation "measure (\<lambda>(wallPlate, wall_hit, i, test, which_aperture).
                  nat (n_detect wallPlate - i))") auto

text \<open>
  \<open>multiBackWall\<close> returns the nearest-hit record, \<open>meets\<close> and \<open>which_aperture\<close>. Both
  \<open>meets\<close> and \<open>which_aperture\<close> are written on every path before they are read.
\<close>

definition wall_alpha :: "Ray3D \<Rightarrow> real" where
  "wall_alpha the_ray =
     (case position the_ray of (e0, e1, e2) \<Rightarrow>
      case direction the_ray of (d0, d1, d2) \<Rightarrow> (0 - e1) / d1)"

definition multiBackWall :: "Ray3D \<Rightarrow> NBackWall \<Rightarrow> Nearest \<Rightarrow> Nearest \<times> int \<times> int" where
  "multiBackWall the_ray wallPlate st =
     (let d = direction the_ray
      in if fst (snd d) > 0 then
           let e = position the_ray;
               backNormal = (0, - 1, 0);
               alpha = wall_alpha the_ray
           in if alpha * alpha > min_dist st then (st, 0, 0)
              else
                let wall_hit = propagate e d alpha;
                    (test, which_aperture) = aperture_loop wallPlate wall_hit 0 (Some 10) 0
                in if below_one test \<and> alpha * alpha < min_dist st then
                     (st\<lparr>min_dist := alpha * alpha,
                         tri_hit := - 1,
                         nearest_n := backNormal,
                         nearest_inter := wall_hit,
                         which_surface := NBackWall.surf_index wallPlate\<rparr>,
                      0, which_aperture)
                   else
                     let x = fst wall_hit * fst wall_hit +
                             snd (snd wall_hit) * snd (snd wall_hit);
                         r = circle_plate_r wallPlate
                     in if x \<le> r * r \<and> plate_represent wallPlate \<noteq> 0 then
                          (if alpha * alpha < min_dist st
                           then (st\<lparr>min_dist := alpha * alpha,
                                    tri_hit := - 1,
                                    nearest_n := backNormal,
                                    nearest_inter := wall_hit,
                                    which_surface := NBackWall.surf_index wallPlate\<rparr>,
                                 1, 0)
                           else (st, 1, 0))
                        else (st, 0, 0)
         else (st, 0, 0))"

section \<open>Geometric predicates used in the statements\<close>

text \<open>
  A face is considered by the ray-triangle kernel when none of the three early
  \<open>continue\<close> tests of \<open>scatterTriag\<close> fires: the ray is not on the face, the face is
  not back-facing, and not all three vertices lie behind the ray origin.
\<close>

definition face_considered :: "Ray3D \<Rightarrow> Surface3D \<Rightarrow> int \<Rightarrow> bool" where
  "face_considered the_ray sample j =
     (case get_element3D sample j of (a, b, c, normal) \<Rightarrow>
        \<not> (on_element the_ray = j \<and> on_surface the_ray = Surface3D.surf_index sample) \<and>
        \<not> dot normal (direction the_ray) > 0 \<and>
        \<not> (dot (vsub a (position the_ray)) (direction the_ray) < 0 \<and>
           dot (vsub b (position the_ray)) (direction the_ray) < 0 \<and>
           dot (vsub c (position the_ray)) (direction the_ray) < 0))"

text \<open>
  The interior of the aperture ellipse with half-axes \<open>a/2\<close> and \<open>b/2\<close> about the
  aperture centre, in the plate plane; an aperture with a zero axis has no interior.
\<close>

definition in_ellipse :: "vec3 \<Rightarrow> BackWall \<Rightarrow> bool" where
  "in_ellipse wall_hit plate =
     (case wall_hit of (w0, w1, w2) \<Rightarrow>
      case aperture_c plate of (c0, c1) \<Rightarrow>
      case aperture_axes plate of (ax0, ax1) \<Rightarrow>
        ax0 \<noteq> 0 \<and> ax1 \<noteq> 0 \<and>
        (w0 - c0)\<^sup>2 / (ax0 / 2)\<^sup>2 + (w2 - c1)\<^sup>2 / (ax1 / 2)\<^sup>2 < 1)"

text \<open>
  Aperture \<open>k\<close> (0-based) is the first of the sequence whose interior contains the
  point; no aperture contains the point; the point lies within the plate disc.
\<close>

definition first_containing :: "NBackWall \<Rightarrow> vec3 \<Rightarrow> int \<Rightarrow> bool" where
  "first_containing wallPlate wall_hit k =
     (0 \<le> k \<and> k < n_detect wallPlate \<and>
      in_ellipse wall_hit (get_nth_aperture k wallPlate) \<and>
      (\<forall>i. 0 \<le> i \<and> i < k \<longrightarrow> \<not> in_ellipse wall_hit (get_nth_aperture i wallPlate)))"

definition none_containing :: "NBackWall \<Rightarrow> vec3 \<Rightarrow> bool" where
  "none_containing wallPlate wall_hit =
     (\<forall>i. 0 \<le> i \<and> i < n_detect wallPlate \<longrightarrow>
        \<not> in_ellipse wall_hit (get_nth_aperture i wallPlate))"

definition on_plate_disc :: "NBackWall \<Rightarrow> vec3 \<Rightarrow> bool" where
  "on_plate_disc wallPlate wall_hit =
     (fst wall_hit * fst wall_hit + snd (snd wall_hit) * snd (snd wall_hit)
        \<le> circle_plate_r wallPlate * circle_plate_r wallPlate)"

section \<open>The ray propagator and the gateway: \<open>trace_ray_simple\<close>, \<open>mexFunction\<close>\<close>

text \<open>
  The scene handed to the propagator: the sample, the back wall with its apertures,
  the analytic sphere with its presence flag. \<open>scene_first_plate\<close> is the flag of the
  spec's first-scatter policy; the gateway has no input for it, so it is a parameter
  here. \<open>scene_far\<close> is the finite value with which the C code starts \<open>min_dist\<close> where
  the spec says \<open>+\<infinity>\<close>.
\<close>

record Scene =
  scene_sample :: Surface3D
  scene_plate :: NBackWall
  scene_sphere :: AnalytSphere
  scene_make_sphere :: int
  scene_first_plate :: int
  scene_far :: real

text \<open>
  The result of one intersection test: no hit, a hit in the detector aperture with
  the given 1-based index, or a hit on a scattering surface with its nearest-hit
  record.
\<close>

datatype flight = No_hit | Aperture_hit int | Surface_hit Nearest

datatype terminal = Detected | Escaped | Killed

text \<open>
  Modelled from the spec: the intersection kernel \<open>nearest_hit\<close> is called inside
  \<open>trace_ray_simple\<close>, which is not among the sources. The spec initialises the
  squared distance and evaluates, in this order, the sample triangles, the sphere if
  present, and the plate; under the first-scatter policy the plate is left out of
  the initial flight (scatter count 0) when the flag is off. A hit in an aperture is
  a detection; otherwise there is a hit exactly when some candidate has replaced
  the record, that is, when the squared distance has dropped. The three routines
  are the ones of \<open>intersect_detection3D.c\<close> above; the single-aperture plate of the
  gateway is a back wall with \<open>n_detect = 1\<close>.
\<close>

definition nearest_hit :: "Scene \<Rightarrow> Ray3D \<Rightarrow> flight" where
  "nearest_hit sc the_ray =
     (let st0 = \<lparr>min_dist = scene_far sc, nearest_inter = position the_ray,
                 nearest_n = (0, 0, 0), tri_hit = - 1, which_surface = - 1\<rparr>;
          (st1, meets) = scatterTriag the_ray (scene_sample sc) st0 0;
          (st2, meets_sphere) =
            (if scene_make_sphere sc \<noteq> 0
             then scatterSphere the_ray (scene_sphere sc) st1
             else (st1, 0));
          (st3, meets_plate, which_aperture) =
            (if nScatters the_ray = 0 \<and> scene_first_plate sc = 0
             then (st2, 0, 0)
             else multiBackWall the_ray (scene_plate sc) st2)
      in if which_aperture \<noteq> 0 then Aperture_hit which_aperture
         else if min_dist st3 < min_dist st0 then Surface_hit st3
         else No_hit)"

text \<open>
  Modelled from the spec: a scatter advances the ray to the hit point, sets
  \<open>on_surface\<close> and \<open>on_element\<close> from the hit, increments the scatter count and takes
  the new direction from the scattering kernel. The scattering kernel draws from the
  random number generator; its result is given by the caller.
\<close>

definition scatter_ray :: "Ray3D \<Rightarrow> Nearest \<Rightarrow> vec3 \<Rightarrow> Ray3D" where
  "scatter_ray the_ray st new_dir =
     the_ray\<lparr>position := nearest_inter st,
             direction := new_dir,
             nScatters := nScatters the_ray + 1,
             on_surface := which_surface st,
             on_element := tri_hit st\<rparr>"

text \<open>
  Modelled from the spec: the state machine of the ray propagator. In flight it
  invokes the intersection kernel: no hit ends the ray as escaped, a hit in a
  detector aperture ends it as detected with the current scatter count, any other
  hit is a scatter. After a scatter the ray is killed if its scatter count is at
  least \<open>maxScatter\<close>, else it flies again. \<open>new_direction k\<close> is the direction that
  the scattering kernel draws at the scatter following \<open>k\<close> earlier ones.
\<close>

function ray_flight :: "Scene \<Rightarrow> (nat \<Rightarrow> vec3) \<Rightarrow> int \<Rightarrow> Ray3D \<Rightarrow> terminal \<times> Ray3D" where
  "ray_flight sc new_direction maxScatters the_ray =
     (case nearest_hit sc the_ray of
        No_hit \<Rightarrow> (Escaped, the_ray)
      | Aperture_hit which_aperture \<Rightarrow> (Detected, the_ray)
      | Surface_hit st \<Rightarrow>
          (if nScatters (scatter_ray the_ray st (new_direction (nat (nScatters the_ray))))
                \<ge> maxScatters
           then (Killed, scatter_ray the_ray st (new_direction (nat (nScatters the_ray))))
           else ray_flight sc new_direction maxScatters
                  (scatter_ray the_ray st (new_direction (nat (nScatters the_ray))))))"
  by pat_completeness auto
termination
  by (relation "measure (\<lambda>(sc, new_direction, maxScatters, the_ray).
                  nat (maxScatters - nScatters the_ray))")
     (auto simp: scatter_ray_def)

text \<open>
  Modelled from the spec: as called by the gateway, \<open>trace_ray_simple\<close> receives the
  ray, the addresses of \<open>killed\<close> and \<open>cntr_detected\<close>, the scatter budget, the scene
  and the random number generator, and returns \<open>detected\<close>. It leaves the final state
  in the ray, counts a killed ray in \<open>killed\<close> and a detected ray in \<open>cntr_detected\<close>,
  and returns 1 for a detected ray and 0 otherwise.
\<close>

definition trace_ray_simple ::
    "Ray3D \<Rightarrow> int \<Rightarrow> int \<Rightarrow> int \<Rightarrow> Scene \<Rightarrow> (nat \<Rightarrow> vec3) \<Rightarrow> Ray3D \<times> int \<times> int \<times> int" where
  "trace_ray_simple the_ray killed cntr_detected maxScatters sc new_direction =
     (case ray_flight sc new_direction maxScatters the_ray of
        (Detected, r) \<Rightarrow> (r, killed, cntr_detected + 1, 1)
      | (Killed, r) \<Rightarrow> (r, killed + 1, cntr_detected, 0)
      | (Escaped, r) \<Rightarrow> (r, killed, cntr_detected, 0))"

text \<open>
  What the random number generator yields for one ray: the position and the
  direction drawn by the source sampler, and the directions drawn by the scattering
  kernel at the successive scatters.
\<close>

record RayDraws =
  source_position :: vec3
  source_direction :: vec3
  scattered :: "nat \<Rightarrow> vec3"

text \<open>
  Modelled from the spec: \<open>create_ray_source\<close> is not among the sources. A new ray has
  scatter count 0 and is on no surface. The source is the pinhole of the plate, whose
  outward normal is \<open>(0, -1, 0)\<close>; the ray is emitted away from the plate towards the
  sample, about the pinhole normal or about the beam direction
  \<open>(sin \<theta>, -cos \<theta>, 0)\<close> of incidence angle \<open>\<theta>\<close> (as \<open>init_dir\<close> in
  \<open>preformScattering.m\<close>): whatever is drawn, the \<open>y\<close> component of its direction is not
  positive. The source parameters of the gateway shape the distribution of the draws
  and do not enter otherwise.
\<close>

definition create_ray_source :: "vec3 \<Rightarrow> vec3 \<Rightarrow> Ray3D" where
  "create_ray_source p d =
     (case d of (dx, dy, dz) \<Rightarrow>
        \<lparr>position = p, direction = (dx, - \<bar>dy\<bar>, dz), nScatters = 0,
         on_surface = - 1, on_element = - 1\<rparr>)"

text \<open>
  \<open>mexErrMsgIdAndTxt\<close> leaves the gateway with an identifier and a message. A write
  to \<open>numScattersRay\<close> outside the array created by \<open>mxCreateNumericMatrix\<close> is
  undefined in C; the model stops there with the offending index.
\<close>

datatype failure = MexError string string | OutOfBounds int

text \<open>
  The three left-hand-side outputs: \<open>plhs[0]\<close> the number of detected rays,
  \<open>plhs[1]\<close> the number of killed rays, \<open>plhs[2]\<close> the histogram \<open>numScattersRay\<close>.
\<close>

record mex_outputs =
  plhs0 :: int
  plhs1 :: int
  plhs2 :: "int list"

text \<open>
  The gateway numbers the surfaces before it traces: \<open>sample_index = 0\<close>,
  \<open>plate_index = 1\<close>, \<open>sphere_index = 2\<close>.
\<close>

definition gateway_scene :: "Scene \<Rightarrow> Scene" where
  "gateway_scene sc =
     sc\<lparr>scene_sample := (scene_sample sc)\<lparr>Surface3D.surf_index := 0\<rparr>,
        scene_plate := (scene_plate sc)\<lparr>NBackWall.surf_index := 1\<rparr>,
        scene_sphere := (scene_sphere sc)\<lparr>AnalytSphere.surf_index := 2\<rparr>\<rparr>"

text \<open>
  The body of the loop over the rays, on the state \<open>(cntr_detected, killed,
  numScattersRay)\<close>, and the loop itself.
\<close>

definition trace_body ::
    "Scene \<Rightarrow> RayDraws \<Rightarrow> int \<Rightarrow> int \<times> int \<times> int list \<Rightarrow> failure + int \<times> int \<times> int list" where
  "trace_body sc draws maxScatters s =
     (case s of (cntr_detected, killed, numScattersRay) \<Rightarrow>
      case trace_ray_simple
             (create_ray_source (source_position draws) (source_direction draws))
             killed cntr_detected maxScatters sc (scattered draws) of
        (the_ray, killed', cntr_detected', detected) \<Rightarrow>
          if detected \<noteq> 0 then
            (if 0 \<le> nScatters the_ray - 1 \<and>
                nScatters the_ray - 1 < int (length numScattersRay)
             then Inr (cntr_detected', killed',
                       numScattersRay[nat (nScatters the_ray - 1) :=
                         numScattersRay ! nat (nScatters the_ray - 1) + 1])
             else Inl (OutOfBounds (nScatters the_ray - 1)))
          else Inr (cntr_detected', killed', numScattersRay))"

function trace_loop ::
    "Scene \<Rightarrow> (nat \<Rightarrow> RayDraws) \<Rightarrow> int \<Rightarrow> int \<Rightarrow> int \<Rightarrow> int \<times> int \<times> int list \<Rightarrow>
       failure + int \<times> int \<times> int list" where
  "trace_loop sc rng maxScatters nrays i s =
     (if i < nrays then
        case trace_body sc (rng (nat i)) maxScatters s of
          Inl failure \<Rightarrow> Inl failure
        | Inr s' \<Rightarrow> trace_loop sc rng maxScatters nrays (i + 1) s'
      else Inr s)"
  by pat_completeness auto
termination
  by (relation "measure (\<lambda>(sc, rng, maxScatters, nrays, i, s). nat (nrays - i))") auto

text \<open>
  The gateway. Of its eighteen inputs the model keeps \<open>maxScatters\<close> and \<open>nrays\<close>
  as they are; the mesh, sphere and plate inputs are the scene, and the source
  parameters act through the draws of the random number generator.
  \<open>mxCreateNumericMatrix(1, maxScatters, ...)\<close> yields a zero-filled array.
\<close>

definition mexFunction ::
    "int \<Rightarrow> int \<Rightarrow> int \<Rightarrow> int \<Rightarrow> Scene \<Rightarrow> (nat \<Rightarrow> RayDraws) \<Rightarrow> failure + mex_outputs" where
  "mexFunction nlhs nrhs maxScatters nrays sc rng =
     (if nrhs \<noteq> 18 then
        Inl (MexError ''MyToolbox:tracingMex:nrhs'' ''Eighteen inputs required for tracingMex.'')
      else if nlhs \<noteq> 3 then
        Inl (MexError ''MyToolbox:tracingMex:nrhs'' ''Six outpus required for tracingMex.'')
      else
        case trace_loop (gateway_scene sc) rng maxScatters nrays 0
               (0, 0, replicate (nat maxScatters) 0) of
          Inl failure \<Rightarrow> Inl failure
        | Inr (cntr_detected, killed, numScattersRay) \<Rightarrow>
            Inr \<lparr>plhs0 = cntr_detected, plhs1 = killed, plhs2 = numScattersRay\<rparr>)"

text \<open>
  The terminal state in which the propagation of a ray of the gateway ends, and the
  number of rays \<open>i \<le> j < n\<close> of a run that end in the terminal state \<open>t\<close>.
\<close>

definition ray_outcome :: "Scene \<Rightarrow> int \<Rightarrow> RayDraws \<Rightarrow> terminal" where
  "ray_outcome sc maxScatters draws =
     fst (ray_flight sc (scattered draws) maxScatters
            (create_ray_source (source_position draws) (source_direction draws)))"

definition ended ::
    "Scene \<Rightarrow> (nat \<Rightarrow> RayDraws) \<Rightarrow> int \<Rightarrow> terminal \<Rightarrow> nat \<Rightarrow> nat \<Rightarrow> int" where
  "ended sc rng maxScatters t i n =
     int (length (filter (\<lambda>j. ray_outcome (gateway_scene sc) maxScatters (rng j) = t)
            [i..<n]))"

section \<open>Concrete scenes\<close>

text \<open>
  A unit sphere at the origin, a single upward-facing triangle in the plane \<open>y = 0\<close>,
  a back wall with two overlapping circular apertures of diameter 2, and a bench for
  the gateway: a triangle one unit below a plate with one aperture, with rays that
  are detected after a single scatter (rays 0 and 3), that bounce between sample
  and plate until killed (ray 1), and that miss the sample and escape (ray 2).
\<close>

definition unit_sphere :: AnalytSphere where
  "unit_sphere = \<lparr>sphere_c = (0, 0, 0), sphere_r = 1, AnalytSphere.surf_index = 2\<rparr>"

definition ray_from :: "vec3 \<Rightarrow> vec3 \<Rightarrow> Ray3D" where
  "ray_from e d = \<lparr>position = e, direction = d, nScatters = 0, on_surface = - 1,
     on_element = - 1\<rparr>"

definition ray_on :: "vec3 \<Rightarrow> vec3 \<Rightarrow> int \<Rightarrow> int \<Rightarrow> Ray3D" where
  "ray_on e d surface element = \<lparr>position = e, direction = d, nScatters = 1,
     on_surface = surface, on_element = element\<rparr>"

definition far_nearest :: "real \<Rightarrow> Nearest" where
  "far_nearest m = \<lparr>min_dist = m, nearest_inter = (0, 0, 0), nearest_n = (0, 0, 0),
     tri_hit = - 1, which_surface = - 1\<rparr>"

definition stale_nearest :: "real \<Rightarrow> Nearest" where
  "stale_nearest m = \<lparr>min_dist = m, nearest_inter = (9, 9, 9), nearest_n = (1, 0, 0),
     tri_hit = 7, which_surface = 0\<rparr>"

definition flat_sample :: Surface3D where
  "flat_sample = \<lparr>n_faces = 1, vertices = [(0, 0, 0), (1, 0, 0), (0, 0, 1)],
     faces = [(0, 1, 2)], normals = [(0, 1, 0)], Surface3D.surf_index = 0\<rparr>"

definition two_aperture_wall :: NBackWall where
  "two_aperture_wall = \<lparr>n_detect = 2,
     apertures = [\<lparr>aperture_c = (0, 0), aperture_axes = (2, 2)\<rparr>,
                  \<lparr>aperture_c = (1/2, 0), aperture_axes = (2, 2)\<rparr>],
     circle_plate_r = 4, plate_represent = 1, NBackWall.surf_index = 1\<rparr>"

definition bench_sample :: Surface3D where
  "bench_sample = \<lparr>n_faces = 1, vertices = [(0, - 1, 0), (4, - 1, 0), (0, - 1, 4)],
     faces = [(0, 1, 2)], normals = [(0, 1, 0)], Surface3D.surf_index = 5\<rparr>"

definition bench_plate :: NBackWall where
  "bench_plate = \<lparr>n_detect = 1,
     apertures = [\<lparr>aperture_c = (0, 0), aperture_axes = (2, 2)\<rparr>],
     circle_plate_r = 4, plate_represent = 1, NBackWall.surf_index = 5\<rparr>"

definition bench_scene :: Scene where
  "bench_scene = \<lparr>scene_sample = bench_sample, scene_plate = bench_plate,
     scene_sphere = unit_sphere, scene_make_sphere = 0, scene_first_plate = 1,
     scene_far = 100\<rparr>"

definition bounce :: "nat \<Rightarrow> vec3" where
  "bounce k = (if even k then (0, 1, 0) else (0, - 1, 0))"

definition bench_rng :: "nat \<Rightarrow> RayDraws" where
  "bench_rng i =
     (if i = 1 then \<lparr>source_position = (2, 0, 1), source_direction = (0, 1, 0),
                     scattered = bounce\<rparr>
      else if i = 2 then \<lparr>source_position = (10, 0, 10), source_direction = (0, 1, 0),
                          scattered = bounce\<rparr>
      else \<lparr>source_position = (1/4, 0, 1/4), source_direction = (0, 1, 0),
             scattered = bounce\<rparr>)"

declare scatterTriag_loop.simps [simp del]

declare aperture_loop.simps [simp del]

declare ray_flight.simps [simp del]

declare trace_loop.simps [simp del]

section \<open>Evaluation of the concrete scenes\<close>

lemma ray_from_simps:
  "position (ray_from e d) = e" "direction (ray_from e d) = d"
  "on_surface (ray_from e d) = - 1" "on_element (ray_from e d) = - 1"
  by (simp_all add: ray_from_def)

lemma ray_on_simps:
  "position (ray_on e d a b) = e" "direction (ray_on e d a b) = d"
  "on_surface (ray_on e d a b) = a" "on_element (ray_on e d a b) = b"
  by (simp_all add: ray_on_def)

lemma far_nearest_simps:
  "min_dist (far_nearest m) = m" "tri_hit (far_nearest m) = - 1"
  "which_surface (far_nearest m) = - 1"
  by (simp_all add: far_nearest_def)

lemma stale_nearest_simps:
  "min_dist (stale_nearest m) = m" "tri_hit (stale_nearest m) = 7"
  "which_surface (stale_nearest m) = 0" "nearest_inter (stale_nearest m) = (9, 9, 9)"
  "nearest_n (stale_nearest m) = (1, 0, 0)"
  by (simp_all add: stale_nearest_def)

lemma flat_sample_element:
  "get_element3D flat_sample 0 = ((0, 0, 0), (1, 0, 0), (0, 0, 1), (0, 1, 0))"
  by (simp add: get_element3D_def flat_sample_def)

lemma flat_sample_simps:
  "n_faces flat_sample = 1" "Surface3D.surf_index flat_sample = 0"
  by (simp_all add: flat_sample_def)

lemma two_aperture_wall_simps:
  "n_detect two_aperture_wall = 2"
  "get_nth_aperture 0 two_aperture_wall = \<lparr>aperture_c = (0, 0), aperture_axes = (2, 2)\<rparr>"
  "get_nth_aperture 1 two_aperture_wall = \<lparr>aperture_c = (1/2, 0), aperture_axes = (2, 2)\<rparr>"
  "circle_plate_r two_aperture_wall = 4"
  "plate_represent two_aperture_wall = 1"
  "NBackWall.surf_index two_aperture_wall = 1"
  by (simp_all add: two_aperture_wall_def get_nth_aperture_def)

lemma upward_ray_simps:
  "wall_alpha (ray_from (x, - 1, 0) (0, 1, 0)) = 1"
  "wall_alpha (ray_from (x, 1, 0) (0, 1, 0)) = - 1"
  "propagate (position (ray_from (x, - 1, 0) (0, 1, 0))) (direction (ray_from (x, - 1, 0) (0, 1, 0))) 1
     = (x, 0, 0)"
  "propagate (position (ray_from (x, 1, 0) (0, 1, 0))) (direction (ray_from (x, 1, 0) (0, 1, 0))) (- 1)
     = (x, 0, 0)"
  "fst (snd (direction (ray_from (x, y, 0) (0, 1, 0)))) = 1"
  "fst (snd (position (ray_from (x, y, 0) (0, 1, 0)))) = y"
  by (simp_all add: wall_alpha_def ray_from_def)

lemma outside_ray_values:
  "sphere_beta (ray_from (- 3, 0, 0) (1, 0, 0)) unit_sphere = - 6"
  "sphere_gamma (ray_from (- 3, 0, 0) (1, 0, 0)) unit_sphere = 8"
  "sphere_discriminant (ray_from (- 3, 0, 0) (1, 0, 0)) unit_sphere = 4"
  "sphere_distance (ray_from (- 3, 0, 0) (1, 0, 0)) unit_sphere = 2"
  by (simp_all add: sphere_distance_def sphere_discriminant_def sphere_beta_def
      sphere_gamma_def ray_from_def unit_sphere_def)

lemma passing_ray_values:
  "sphere_discriminant (ray_from (- 3, 5, 0) (1, 0, 0)) unit_sphere = - 96"
  by (simp add: sphere_discriminant_def sphere_beta_def sphere_gamma_def ray_from_def
      unit_sphere_def)

lemma flat_sample_matrix:
  "triag_matrix (0, 0, 0) (1, 0, 0) (0, 0, 1) (0, - 1, 0) = ((- 1, 0, 0), (0, 0, - 1), (0, - 1, 0))"
  "det3 ((- 1, 0, 0), (0, 0, - 1), (0, - 1, 0)) = 1"
  "triag_matrix (0, 0, 0) (1, 0, 0) (0, 0, 1) (1, 0, 0) = ((- 1, 0, 1), (0, 0, 0), (0, - 1, 0))"
  "det3 ((- 1, 0, 1), (0, 0, 0), (0, - 1, 0)) = 0"
  by simp_all

lemma flat_sample_considered:
  "face_considered (ray_on (1/4, 1, 1/4) (0, - 1, 0) (- 1) (- 1)) flat_sample 0"
  "face_considered (ray_on (- 1, 0, 1/4) (1, 0, 0) (- 1) (- 1)) flat_sample 0"
  by (simp_all add: face_considered_def flat_sample_element ray_on_simps flat_sample_simps)

lemma flat_sample_hit:
  "scatterTriag (ray_on (1/4, 1, 1/4) (0, - 1, 0) (- 1) (- 1)) flat_sample (far_nearest 100) 0 =
     ((far_nearest 100)\<lparr>min_dist := 1, tri_hit := 0, nearest_n := (0, 1, 0),
        nearest_inter := (1/4, 0, 1/4), which_surface := 0\<rparr>, 1)"
  by (simp add: scatterTriag_def scatterTriag_loop.simps scatterTriag_face_def
      flat_sample_element flat_sample_simps ray_on_simps solve3x3_def epsilon_def
      far_nearest_simps Let_def)

lemma flat_sample_tie:
  "scatterTriag (ray_on (1/4, 1, 1/4) (0, - 1, 0) (- 1) (- 1)) flat_sample (far_nearest 1) 0 =
     (far_nearest 1, 1)"
  by (simp add: scatterTriag_def scatterTriag_loop.simps scatterTriag_face_def
      flat_sample_element flat_sample_simps ray_on_simps solve3x3_def epsilon_def
      far_nearest_simps Let_def)

lemma int_range_one: "(\<forall>i::int. 0 \<le> i \<and> i < 1 \<longrightarrow> P i) = P 0"
proof
  assume "\<forall>i::int. 0 \<le> i \<and> i < 1 \<longrightarrow> P i"
  then show "P 0" by simp
next
  assume p: "P 0"
  show "\<forall>i::int. 0 \<le> i \<and> i < 1 \<longrightarrow> P i"
  proof (intro allI impI)
    fix i :: int
    assume "0 \<le> i \<and> i < 1"
    then have "i = 0" by presburger
    then show "P i" using p by simp
  qed
qed

lemma int_range_two: "(\<forall>i::int. 0 \<le> i \<and> i < 2 \<longrightarrow> P i) = (P 0 \<and> P 1)"
proof
  assume "\<forall>i::int. 0 \<le> i \<and> i < 2 \<longrightarrow> P i"
  then show "P 0 \<and> P 1" by simp
next
  assume p: "P 0 \<and> P 1"
  show "\<forall>i::int. 0 \<le> i \<and> i < 2 \<longrightarrow> P i"
  proof (intro allI impI)
    fix i :: int
    assume "0 \<le> i \<and> i < 2"
    then have "i = 0 \<or> i = 1" by presburger
    then show "P i" using p by auto
  qed
qed

lemma two_aperture_wall_first:
  "first_containing two_aperture_wall (1/4, 0, 0) 0"
  "first_containing two_aperture_wall (6/5, 0, 0) 1"
  "none_containing two_aperture_wall (3, 0, 0)"
  "none_containing two_aperture_wall (5, 0, 0)"
  "on_plate_disc two_aperture_wall (3, 0, 0)"
  "\<not> on_plate_disc two_aperture_wall (5, 0, 0)"
  by (simp_all add: first_containing_def none_containing_def on_plate_disc_def
      two_aperture_wall_simps in_ellipse_def power2_eq_square int_range_one int_range_two)

section \<open>Properties of \<open>scatterSphere\<close>\<close>

lemma sphere_beta_dot:
  "sphere_beta the_ray the_sphere =
     2 * dot (direction the_ray) (vsub (position the_ray) (sphere_c the_sphere))"
  by (cases "position the_ray"; cases "direction the_ray"; cases "sphere_c the_sphere")
     (simp add: sphere_beta_def)

lemma sphere_gamma_dot:
  "sphere_gamma the_ray the_sphere =
     dot (vsub (position the_ray) (sphere_c the_sphere))
         (vsub (position the_ray) (sphere_c the_sphere)) -
       sphere_r the_sphere * sphere_r the_sphere"
  by (cases "position the_ray"; cases "sphere_c the_sphere")
     (simp add: sphere_gamma_def algebra_simps)

lemma sphere_distance_root:
  assumes "0 \<le> sphere_discriminant the_ray the_sphere"
  shows "sphere_distance the_ray the_sphere * sphere_distance the_ray the_sphere +
           sphere_beta the_ray the_sphere * sphere_distance the_ray the_sphere +
           sphere_gamma the_ray the_sphere = 0"
proof -
  define b where "b = sphere_beta the_ray the_sphere"
  define g where "g = sphere_gamma the_ray the_sphere"
  define s where "s = sqrt (b * b - 4 * g)"
  have disc: "0 \<le> b * b - 4 * g"
    using assms by (simp add: sphere_discriminant_def b_def g_def)
  have ss: "s * s = b * b - 4 * g"
    using disc by (simp add: s_def)
  have "((- b - s) / 2) * ((- b - s) / 2) + b * ((- b - s) / 2) + g =
          (s * s - (b * b - 4 * g)) / 4"
    by (simp add: field_simps)
  also have "\<dots> = 0"
    by (simp add: ss)
  finally show ?thesis
    by (simp add: sphere_distance_def sphere_discriminant_def b_def g_def s_def)
qed

lemma sphere_distance_least:
  assumes root: "t * t + sphere_beta the_ray the_sphere * t +
                   sphere_gamma the_ray the_sphere = 0"
  shows "sphere_distance the_ray the_sphere \<le> t"
proof -
  define b where "b = sphere_beta the_ray the_sphere"
  define g where "g = sphere_gamma the_ray the_sphere"
  have eq: "b * b - 4 * g = (2 * t + b) * (2 * t + b)"
    using root by (simp add: b_def g_def algebra_simps)
  have "sqrt (b * b - 4 * g) = \<bar>2 * t + b\<bar>"
    unfolding eq by simp
  then have "- (2 * t + b) \<le> sqrt (b * b - 4 * g)"
    by simp
  then show ?thesis
    by (simp add: sphere_distance_def sphere_discriminant_def b_def g_def)
qed

lemma scatterSphere_cases:
  "fst (scatterSphere the_ray the_sphere st) = st \<or>
   (sphere_distance the_ray the_sphere * sphere_distance the_ray the_sphere < min_dist st \<and>
    min_dist (fst (scatterSphere the_ray the_sphere st)) =
      sphere_distance the_ray the_sphere * sphere_distance the_ray the_sphere)"
  by (auto simp: scatterSphere_def Let_def)

text \<open>
  C9: whenever \<open>scatterSphere\<close> reports \<open>meets_sphere = 0\<close>, the fields \<open>min_dist\<close>,
  \<open>nearest_inter\<close>, \<open>nearest_n\<close>, \<open>tri_hit\<close> and \<open>which_surface\<close> are left as they were;
  and \<open>meets_sphere = 0\<close> is reported in each of the three cases: negative
  discriminant, smaller root not strictly positive, candidate not nearer than the
  current minimum.
\<close>

theorem scatterSphere_miss_frame:
  "(snd (scatterSphere the_ray the_sphere st) = 0 \<longrightarrow>
      min_dist (fst (scatterSphere the_ray the_sphere st)) = min_dist st \<and>
      nearest_inter (fst (scatterSphere the_ray the_sphere st)) = nearest_inter st \<and>
      nearest_n (fst (scatterSphere the_ray the_sphere st)) = nearest_n st \<and>
      tri_hit (fst (scatterSphere the_ray the_sphere st)) = tri_hit st \<and>
      which_surface (fst (scatterSphere the_ray the_sphere st)) = which_surface st) \<and>
   (sphere_discriminant the_ray the_sphere < 0 \<or>
    sphere_distance the_ray the_sphere \<le> 0 \<or>
    min_dist st \<le> sphere_distance the_ray the_sphere * sphere_distance the_ray the_sphere
      \<longrightarrow> snd (scatterSphere the_ray the_sphere st) = 0)"
  by (auto simp: scatterSphere_def Let_def)

theorem scatterSphere_miss_frame_witness:
  "snd (scatterSphere (ray_from (0, 0, 0) (1, 0, 0)) unit_sphere (far_nearest 100)) = 0 \<and>
   min_dist (fst (scatterSphere (ray_from (0, 0, 0) (1, 0, 0)) unit_sphere (far_nearest 100)))
     = 100 \<and>
   tri_hit (fst (scatterSphere (ray_from (0, 0, 0) (1, 0, 0)) unit_sphere (far_nearest 100)))
     = - 1"
proof -
  have d: "sphere_distance (ray_from (0, 0, 0) (1, 0, 0)) unit_sphere = - 1"
    by (simp add: sphere_distance_def sphere_discriminant_def sphere_beta_def
        sphere_gamma_def ray_from_def unit_sphere_def)
  have "snd (scatterSphere (ray_from (0, 0, 0) (1, 0, 0)) unit_sphere (far_nearest 100)) = 0"
    using scatterSphere_miss_frame
      [of "ray_from (0, 0, 0) (1, 0, 0)" unit_sphere "far_nearest 100"] d
    by simp
  then show ?thesis
    using scatterSphere_miss_frame
      [of "ray_from (0, 0, 0) (1, 0, 0)" unit_sphere "far_nearest 100"]
    by (simp add: far_nearest_def)
qed

text \<open>
  C2 (as the code has it): \<open>scatterSphere\<close> solves \<open>t\<^sup>2 + \<beta>t + \<gamma> = 0\<close> with
  \<open>\<beta> = 2 d\<cdot>(e - c)\<close> and \<open>\<gamma> = |e - c|\<^sup>2 - r\<^sup>2\<close>, reports a miss when the
  discriminant is negative, and otherwise takes \<open>distance = (-\<beta> - sqrt(\<beta>\<^sup>2 - 4\<gamma>))/2\<close>,
  the smaller root of the quadratic; it reports a hit at that distance exactly when
  the distance is strictly positive and its square is below the current minimum, and
  a miss otherwise.
\<close>

theorem scatterSphere_smaller_root:
  "sphere_beta the_ray the_sphere =
     2 * dot (direction the_ray) (vsub (position the_ray) (sphere_c the_sphere)) \<and>
   sphere_gamma the_ray the_sphere =
     dot (vsub (position the_ray) (sphere_c the_sphere))
         (vsub (position the_ray) (sphere_c the_sphere)) -
       sphere_r the_sphere * sphere_r the_sphere \<and>
   (sphere_discriminant the_ray the_sphere < 0 \<longrightarrow>
      scatterSphere the_ray the_sphere st = (st, 0)) \<and>
   (0 \<le> sphere_discriminant the_ray the_sphere \<longrightarrow>
      sphere_distance the_ray the_sphere * sphere_distance the_ray the_sphere +
        sphere_beta the_ray the_sphere * sphere_distance the_ray the_sphere +
        sphere_gamma the_ray the_sphere = 0 \<and>
      (\<forall>t. t * t + sphere_beta the_ray the_sphere * t + sphere_gamma the_ray the_sphere = 0
         \<longrightarrow> sphere_distance the_ray the_sphere \<le> t) \<and>
      (if 0 < sphere_distance the_ray the_sphere \<and>
          sphere_distance the_ray the_sphere * sphere_distance the_ray the_sphere < min_dist st
       then snd (scatterSphere the_ray the_sphere st) = 1 \<and>
            min_dist (fst (scatterSphere the_ray the_sphere st)) =
              sphere_distance the_ray the_sphere * sphere_distance the_ray the_sphere \<and>
            nearest_inter (fst (scatterSphere the_ray the_sphere st)) =
              propagate (position the_ray) (direction the_ray)
                (sphere_distance the_ray the_sphere) \<and>
            tri_hit (fst (scatterSphere the_ray the_sphere st)) = - 1 \<and>
            which_surface (fst (scatterSphere the_ray the_sphere st)) =
              AnalytSphere.surf_index the_sphere
       else scatterSphere the_ray the_sphere st = (st, 0)))"
proof (intro conjI impI allI)
  show "sphere_beta the_ray the_sphere =
     2 * dot (direction the_ray) (vsub (position the_ray) (sphere_c the_sphere))"
    by (rule sphere_beta_dot)
  show "sphere_gamma the_ray the_sphere =
     dot (vsub (position the_ray) (sphere_c the_sphere))
         (vsub (position the_ray) (sphere_c the_sphere)) -
       sphere_r the_sphere * sphere_r the_sphere"
    by (rule sphere_gamma_dot)
next
  assume "sphere_discriminant the_ray the_sphere < 0"
  then show "scatterSphere the_ray the_sphere st = (st, 0)"
    by (simp add: scatterSphere_def)
next
  assume "0 \<le> sphere_discriminant the_ray the_sphere"
  then show "sphere_distance the_ray the_sphere * sphere_distance the_ray the_sphere +
        sphere_beta the_ray the_sphere * sphere_distance the_ray the_sphere +
        sphere_gamma the_ray the_sphere = 0"
    by (rule sphere_distance_root)
next
  fix t
  assume "t * t + sphere_beta the_ray the_sphere * t + sphere_gamma the_ray the_sphere = 0"
  then show "sphere_distance the_ray the_sphere \<le> t"
    by (rule sphere_distance_least)
next
  assume "0 \<le> sphere_discriminant the_ray the_sphere"
  then show "if 0 < sphere_distance the_ray the_sphere \<and>
          sphere_distance the_ray the_sphere * sphere_distance the_ray the_sphere < min_dist st
       then snd (scatterSphere the_ray the_sphere st) = 1 \<and>
            min_dist (fst (scatterSphere the_ray the_sphere st)) =
              sphere_distance the_ray the_sphere * sphere_distance the_ray the_sphere \<and>
            nearest_inter (fst (scatterSphere the_ray the_sphere st)) =
              propagate (position the_ray) (direction the_ray)
                (sphere_distance the_ray the_sphere) \<and>
            tri_hit (fst (scatterSphere the_ray the_sphere st)) = - 1 \<and>
            which_surface (fst (scatterSphere the_ray the_sphere st)) =
              AnalytSphere.surf_index the_sphere
       else scatterSphere the_ray the_sphere st = (st, 0)"
    by (simp add: scatterSphere_def Let_def)
qed

theorem scatterSphere_smaller_root_witness:
  "0 \<le> sphere_discriminant (ray_from (- 3, 0, 0) (1, 0, 0)) unit_sphere \<and>
   sphere_distance (ray_from (- 3, 0, 0) (1, 0, 0)) unit_sphere = 2 \<and>
   snd (scatterSphere (ray_from (- 3, 0, 0) (1, 0, 0)) unit_sphere (far_nearest 100)) = 1 \<and>
   min_dist (fst (scatterSphere (ray_from (- 3, 0, 0) (1, 0, 0)) unit_sphere
     (far_nearest 100))) = 4 \<and>
   nearest_inter (fst (scatterSphere (ray_from (- 3, 0, 0) (1, 0, 0)) unit_sphere
     (far_nearest 100))) = (- 1, 0, 0) \<and>
   sphere_discriminant (ray_from (- 3, 5, 0) (1, 0, 0)) unit_sphere < 0 \<and>
   scatterSphere (ray_from (- 3, 5, 0) (1, 0, 0)) unit_sphere (far_nearest 100) =
     (far_nearest 100, 0)"
  using scatterSphere_smaller_root
      [of "ray_from (- 3, 0, 0) (1, 0, 0)" unit_sphere "far_nearest 100"]
    scatterSphere_smaller_root
      [of "ray_from (- 3, 5, 0) (1, 0, 0)" unit_sphere "far_nearest 100"]
  by (simp add: outside_ray_values passing_ray_values ray_from_simps far_nearest_simps)

text \<open>
  C2 as stated fails for a ray that starts inside the sphere: from the centre of the
  unit sphere the roots are \<open>-1\<close> and \<open>1\<close>, so the smaller non-negative root is \<open>1\<close>,
  well below the current minimum, yet a miss is reported.
\<close>

theorem scatterSphere_inside_counterexample:
  "0 \<le> sphere_discriminant (ray_from (0, 0, 0) (1, 0, 0)) unit_sphere \<and>
   (1::real) * 1 + sphere_beta (ray_from (0, 0, 0) (1, 0, 0)) unit_sphere * 1 +
     sphere_gamma (ray_from (0, 0, 0) (1, 0, 0)) unit_sphere = 0 \<and>
   (- 1::real) * (- 1) + sphere_beta (ray_from (0, 0, 0) (1, 0, 0)) unit_sphere * (- 1) +
     sphere_gamma (ray_from (0, 0, 0) (1, 0, 0)) unit_sphere = 0 \<and>
   (1::real) * 1 < min_dist (far_nearest 100) \<and>
   scatterSphere (ray_from (0, 0, 0) (1, 0, 0)) unit_sphere (far_nearest 100) =
     (far_nearest 100, 0)"
  by (simp add: scatterSphere_def sphere_distance_def sphere_discriminant_def sphere_beta_def
      sphere_gamma_def ray_from_def unit_sphere_def far_nearest_def)

section \<open>Properties of \<open>scatterTriag\<close>\<close>

lemma scatterTriag_loop_invariant:
  assumes "P s" and "\<And>k s'. P s' \<Longrightarrow> P (scatterTriag_face the_ray sample k s')"
  shows "P (scatterTriag_loop the_ray sample j s)"
  using assms
proof (induction the_ray sample j s rule: scatterTriag_loop.induct)
  case (1 the_ray sample j s)
  show ?case
  proof (cases "j < n_faces sample")
    case True
    have "P (scatterTriag_face the_ray sample j s)"
      using "1.prems" by blast
    then have "P (scatterTriag_loop the_ray sample (j + 1) (scatterTriag_face the_ray sample j s))"
      using "1.IH" [OF True] "1.prems"(2) by blast
    then show ?thesis
      using True by (subst scatterTriag_loop.simps) simp
  next
    case False
    then show ?thesis
      using "1.prems"(1) by (subst scatterTriag_loop.simps) simp
  qed
qed

lemma scatterTriag_face_cases:
  "scatterTriag_face the_ray sample j s = s \<or>
   (snd (scatterTriag_face the_ray sample j s) = 1 \<and>
    fst (scatterTriag_face the_ray sample j s) = fst s) \<or>
   (snd (scatterTriag_face the_ray sample j s) = 1 \<and>
    min_dist (fst (scatterTriag_face the_ray sample j s)) < min_dist (fst s) \<and>
    tri_hit (fst (scatterTriag_face the_ray sample j s)) = j \<and>
    which_surface (fst (scatterTriag_face the_ray sample j s)) = Surface3D.surf_index sample \<and>
    \<not> (on_element the_ray = j \<and> on_surface the_ray = Surface3D.surf_index sample))"
  by (auto simp: scatterTriag_face_def Let_def split: prod.splits)

lemma scatterTriag_face_skip:
  assumes "on_surface the_ray = Surface3D.surf_index sample" and "on_element the_ray = j"
  shows "scatterTriag_face the_ray sample j s = s"
  using assms by (simp add: scatterTriag_face_def)

lemma scatterTriag_not_current:
  assumes "on_surface the_ray = Surface3D.surf_index sample" and "on_element the_ray = j"
  shows "fst (scatterTriag_loop the_ray sample i s) = fst s \<or>
         tri_hit (fst (scatterTriag_loop the_ray sample i s)) \<noteq> j"
proof (rule scatterTriag_loop_invariant
    [where P = "\<lambda>s' :: Nearest \<times> int. fst s' = fst s \<or> tri_hit (fst s') \<noteq> j"])
  show "fst s = fst s \<or> tri_hit (fst s) \<noteq> j" by simp
next
  fix k and s' :: "Nearest \<times> int"
  assume inv: "fst s' = fst s \<or> tri_hit (fst s') \<noteq> j"
  show "fst (scatterTriag_face the_ray sample k s') = fst s \<or>
        tri_hit (fst (scatterTriag_face the_ray sample k s')) \<noteq> j"
    using scatterTriag_face_cases [of the_ray sample k s'] inv assms
    by auto
qed

lemma scatterTriag_strict:
  "fst (scatterTriag_loop the_ray sample i s) = fst s \<or>
   min_dist (fst (scatterTriag_loop the_ray sample i s)) < min_dist (fst s)"
proof (rule scatterTriag_loop_invariant
    [where P = "\<lambda>s' :: Nearest \<times> int. fst s' = fst s \<or> min_dist (fst s') < min_dist (fst s)"])
  show "fst s = fst s \<or> min_dist (fst s) < min_dist (fst s)" by simp
next
  fix k and s' :: "Nearest \<times> int"
  assume inv: "fst s' = fst s \<or> min_dist (fst s') < min_dist (fst s)"
  show "fst (scatterTriag_face the_ray sample k s') = fst s \<or>
        min_dist (fst (scatterTriag_face the_ray sample k s')) < min_dist (fst s)"
    using scatterTriag_face_cases [of the_ray sample k s'] inv
    by auto
qed

text \<open>
  C6: for a ray whose \<open>(on_surface, on_element)\<close> pair is \<open>(surf_index sample, j)\<close>,
  the loop body for face \<open>j\<close> leaves the state as it is, and the test over the whole
  sample either leaves the nearest-hit record as it was or reports a face other
  than \<open>j\<close>.
\<close>

theorem scatterTriag_skips_current:
  assumes "on_surface the_ray = Surface3D.surf_index sample" and "on_element the_ray = j"
  shows "scatterTriag_face the_ray sample j (st, meets) = (st, meets) \<and>
         (fst (scatterTriag the_ray sample st meets) = st \<or>
          tri_hit (fst (scatterTriag the_ray sample st meets)) \<noteq> j)"
  using scatterTriag_face_skip [OF assms, of "(st, meets)"]
    scatterTriag_not_current [OF assms, of 0 "(st, meets)"]
  by (simp add: scatterTriag_def)

theorem scatterTriag_skips_current_witness:
  "on_surface (ray_on (1/4, 1, 1/4) (0, - 1, 0) 0 0) = Surface3D.surf_index flat_sample \<and>
   on_element (ray_on (1/4, 1, 1/4) (0, - 1, 0) 0 0) = 0 \<and>
   tri_hit (fst (scatterTriag (ray_on (1/4, 1, 1/4) (0, - 1, 0) 0 0) flat_sample
     (far_nearest 100) 0)) = - 1 \<and>
   tri_hit (fst (scatterTriag (ray_on (1/4, 1, 1/4) (0, - 1, 0) (- 1) (- 1)) flat_sample
     (far_nearest 100) 0)) = 0"
proof -
  have s: "on_surface (ray_on (1/4, 1, 1/4) (0, - 1, 0) 0 0) = Surface3D.surf_index flat_sample"
    by (simp add: ray_on_simps flat_sample_simps)
  have e: "on_element (ray_on (1/4, 1, 1/4) (0, - 1, 0) 0 0) = 0"
    by (simp add: ray_on_simps)
  have "scatterTriag (ray_on (1/4, 1, 1/4) (0, - 1, 0) 0 0) flat_sample (far_nearest 100) 0 =
          (far_nearest 100, 0)"
    using scatterTriag_skips_current [OF s e, of "far_nearest 100" 0]
    by (simp add: scatterTriag_def scatterTriag_loop.simps flat_sample_simps)
  then show ?thesis
    using s e by (simp add: flat_sample_hit far_nearest_simps)
qed

lemma cramer_solves:
  assumes "det3 A \<noteq> 0"
  shows "mat_vec A (cramer A v) = v"
proof -
  obtain a00 a01 a02 a10 a11 a12 a20 a21 a22 where
    A: "A = ((a00, a01, a02), (a10, a11, a12), (a20, a21, a22))"
    by (metis prod_cases3)
  obtain v0 v1 v2 where v: "v = (v0, v1, v2)"
    by (metis prod_cases3)
  define D where "D = det3 A"
  have D0: "D \<noteq> 0" using assms by (simp add: D_def)
  have D: "a00 * (a11 * a22 - a12 * a21) - a01 * (a10 * a22 - a12 * a20) +
     a02 * (a10 * a21 - a11 * a20) = D" by (simp add: D_def A)
  have e0: "a00 * (v0 * (a11 * a22 - a12 * a21) - a01 * (v1 * a22 - a12 * v2) + a02 * (v1 * a21 - a11 * v2)) +
            a01 * (a00 * (v1 * a22 - a12 * v2) - v0 * (a10 * a22 - a12 * a20) + a02 * (a10 * v2 - v1 * a20)) +
            a02 * (a00 * (a11 * v2 - v1 * a21) - a01 * (a10 * v2 - v1 * a20) + v0 * (a10 * a21 - a11 * a20)) = v0 * D"
    unfolding D[symmetric] by (simp add: algebra_simps)
  have e1: "a10 * (v0 * (a11 * a22 - a12 * a21) - a01 * (v1 * a22 - a12 * v2) + a02 * (v1 * a21 - a11 * v2)) +
            a11 * (a00 * (v1 * a22 - a12 * v2) - v0 * (a10 * a22 - a12 * a20) + a02 * (a10 * v2 - v1 * a20)) +
            a12 * (a00 * (a11 * v2 - v1 * a21) - a01 * (a10 * v2 - v1 * a20) + v0 * (a10 * a21 - a11 * a20)) = v1 * D"
    unfolding D[symmetric] by (simp add: algebra_simps)
  have e2: "a20 * (v0 * (a11 * a22 - a12 * a21) - a01 * (v1 * a22 - a12 * v2) + a02 * (v1 * a21 - a11 * v2)) +
            a21 * (a00 * (v1 * a22 - a12 * v2) - v0 * (a10 * a22 - a12 * a20) + a02 * (a10 * v2 - v1 * a20)) +
            a22 * (a00 * (a11 * v2 - v1 * a21) - a01 * (a10 * v2 - v1 * a20) + v0 * (a10 * a21 - a11 * a20)) = v2 * D"
    unfolding D[symmetric] by (simp add: algebra_simps)
  have q: "\<And>x y z p q r. p * x / D + q * y / D + r * z / D = (p * x + q * y + r * z) / D"
    by (simp add: add_divide_distrib)
  show ?thesis
    unfolding A v using D0
    by (simp add: Let_def D q e0 e1 e2)
qed

text \<open>
The linear system of \<open>scatterTriag\<close> is the parametric form of the spec.
\<close>

lemma triag_system_parametric:
  assumes "mat_vec (triag_matrix a b c d) (u0, u1, u2) = vsub a e"
  shows "propagate e d u2 = vadd a (vadd (vscale u0 (vsub b a)) (vscale u1 (vsub c a)))"
proof -
  obtain a0 a1 a2 where a: "a = (a0, a1, a2)" by (metis prod_cases3)
  obtain b0 b1 b2 where b: "b = (b0, b1, b2)" by (metis prod_cases3)
  obtain c0 c1 c2 where c: "c = (c0, c1, c2)" by (metis prod_cases3)
  obtain d0 d1 d2 where d: "d = (d0, d1, d2)" by (metis prod_cases3)
  obtain e0 e1 e2 where e: "e = (e0, e1, e2)" by (metis prod_cases3)
  from assms have
    "(a0 - b0) * u0 + (a0 - c0) * u1 + d0 * u2 = a0 - e0"
    "(a1 - b1) * u0 + (a1 - c1) * u1 + d1 * u2 = a1 - e1"
    "(a2 - b2) * u0 + (a2 - c2) * u1 + d2 * u2 = a2 - e2"
    by (simp_all add: a b c d e)
  then show ?thesis
    by (simp add: a b c d e algebra_simps)
qed

text \<open>
  C4: for a face considered by the kernel, the solve is skipped (the state is left
  as it is) when \<open>|det AA| \<le> 1e-10\<close>; otherwise there are \<open>\<beta>\<close>, \<open>\<gamma>\<close>, \<open>t\<close> with
  \<open>e + t d = a + \<beta>(b - a) + \<gamma>(c - a)\<close> such that the candidate is accepted
  (\<open>meets\<close> set to 1) exactly when \<open>\<beta> \<ge> 0\<close>, \<open>\<gamma> \<ge> 0\<close>, \<open>\<beta> + \<gamma> \<le> 1\<close> and \<open>t > 0\<close>, and
  the nearest-hit record is replaced by the candidate only when, in addition, its
  squared distance is below the current minimum.
\<close>

theorem scatterTriag_face_accepts:
  assumes considered: "face_considered the_ray sample j"
    and element: "get_element3D sample j = (a, b, c, normal)"
  shows "(\<bar>det3 (triag_matrix a b c (direction the_ray))\<bar> \<le> 0.0000000001 \<longrightarrow>
            scatterTriag_face the_ray sample j s = s) \<and>
         (\<bar>det3 (triag_matrix a b c (direction the_ray))\<bar> > 0.0000000001 \<longrightarrow>
            (\<exists>\<beta> \<gamma> t.
               propagate (position the_ray) (direction the_ray) t =
                 vadd a (vadd (vscale \<beta> (vsub b a)) (vscale \<gamma> (vsub c a))) \<and>
               scatterTriag_face the_ray sample j s =
                 (if \<beta> \<ge> 0 \<and> \<gamma> \<ge> 0 \<and> \<beta> + \<gamma> \<le> 1 \<and> t > 0 then
                    (if dot (vsub (propagate (position the_ray) (direction the_ray) t)
                               (position the_ray))
                            (vsub (propagate (position the_ray) (direction the_ray) t)
                               (position the_ray)) < min_dist (fst s)
                     then (fst s)\<lparr>min_dist :=
                                     dot (vsub (propagate (position the_ray)
                                                  (direction the_ray) t) (position the_ray))
                                         (vsub (propagate (position the_ray)
                                                  (direction the_ray) t) (position the_ray)),
                                   tri_hit := j,
                                   nearest_n := normal,
                                   nearest_inter :=
                                     propagate (position the_ray) (direction the_ray) t,
                                   which_surface := Surface3D.surf_index sample\<rparr>
                     else fst s, 1)
                  else s)))"
proof (intro conjI impI)
  assume "\<bar>det3 (triag_matrix a b c (direction the_ray))\<bar> \<le> 0.0000000001"
  then show "scatterTriag_face the_ray sample j s = s"
    using considered element
    by (simp add: scatterTriag_face_def face_considered_def solve3x3_def epsilon_def Let_def)
next
  let ?A = "triag_matrix a b c (direction the_ray)"
  let ?v = "vsub a (position the_ray)"
  assume big: "\<bar>det3 ?A\<bar> > 0.0000000001"
  then have nz: "det3 ?A \<noteq> 0" by auto
  obtain u0 u1 u2 where u: "cramer ?A ?v = (u0, u1, u2)"
    by (metis prod_cases3)
  have "mat_vec ?A (u0, u1, u2) = ?v"
    using cramer_solves [OF nz, of ?v] u by simp
  then have par: "propagate (position the_ray) (direction the_ray) u2 =
      vadd a (vadd (vscale u0 (vsub b a)) (vscale u1 (vsub c a)))"
    by (rule triag_system_parametric)
  have solve: "solve3x3 ?A (0, 0, 0) ?v epsilon = ((u0, u1, u2), 1)"
    using big u by (simp add: solve3x3_def epsilon_def)
  have face: "scatterTriag_face the_ray sample j s =
                 (if u0 \<ge> 0 \<and> u1 \<ge> 0 \<and> u0 + u1 \<le> 1 \<and> u2 > 0 then
                    (if dot (vsub (propagate (position the_ray) (direction the_ray) u2)
                               (position the_ray))
                            (vsub (propagate (position the_ray) (direction the_ray) u2)
                               (position the_ray)) < min_dist (fst s)
                     then (fst s)\<lparr>min_dist :=
                                     dot (vsub (propagate (position the_ray)
                                                  (direction the_ray) u2) (position the_ray))
                                         (vsub (propagate (position the_ray)
                                                  (direction the_ray) u2) (position the_ray)),
                                   tri_hit := j,
                                   nearest_n := normal,
                                   nearest_inter :=
                                     propagate (position the_ray) (direction the_ray) u2,
                                   which_surface := Surface3D.surf_index sample\<rparr>
                     else fst s, 1)
                  else s)"
    using considered element
    by (auto simp: scatterTriag_face_def face_considered_def solve Let_def)
  show "\<exists>\<beta> \<gamma> t.
               propagate (position the_ray) (direction the_ray) t =
                 vadd a (vadd (vscale \<beta> (vsub b a)) (vscale \<gamma> (vsub c a))) \<and>
               scatterTriag_face the_ray sample j s =
                 (if \<beta> \<ge> 0 \<and> \<gamma> \<ge> 0 \<and> \<beta> + \<gamma> \<le> 1 \<and> t > 0 then
                    (if dot (vsub (propagate (position the_ray) (direction the_ray) t)
                               (position the_ray))
                            (vsub (propagate (position the_ray) (direction the_ray) t)
                               (position the_ray)) < min_dist (fst s)
                     then (fst s)\<lparr>min_dist :=
                                     dot (vsub (propagate (position the_ray)
                                                  (direction the_ray) t) (position the_ray))
                                         (vsub (propagate (position the_ray)
                                                  (direction the_ray) t) (position the_ray)),
                                   tri_hit := j,
                                   nearest_n := normal,
                                   nearest_inter :=
                                     propagate (position the_ray) (direction the_ray) t,
                                   which_surface := Surface3D.surf_index sample\<rparr>
                     else fst s, 1)
                  else s)"
    using par face by blast
qed

theorem scatterTriag_face_accepts_witness:
  "face_considered (ray_on (1/4, 1, 1/4) (0, - 1, 0) (- 1) (- 1)) flat_sample 0 \<and>
   get_element3D flat_sample 0 = ((0, 0, 0), (1, 0, 0), (0, 0, 1), (0, 1, 0)) \<and>
   0.0000000001 <
     \<bar>det3 (triag_matrix (0, 0, 0) (1, 0, 0) (0, 0, 1)
              (direction (ray_on (1/4, 1, 1/4) (0, - 1, 0) (- 1) (- 1))))\<bar> \<and>
   scatterTriag_face (ray_on (1/4, 1, 1/4) (0, - 1, 0) (- 1) (- 1)) flat_sample 0
       (far_nearest 100, 0) =
     ((far_nearest 100)\<lparr>min_dist := 1, tri_hit := 0, nearest_n := (0, 1, 0),
        nearest_inter := (1/4, 0, 1/4), which_surface := 0\<rparr>, 1) \<and>
   face_considered (ray_on (- 1, 0, 1/4) (1, 0, 0) (- 1) (- 1)) flat_sample 0 \<and>
   \<bar>det3 (triag_matrix (0, 0, 0) (1, 0, 0) (0, 0, 1)
          (direction (ray_on (- 1, 0, 1/4) (1, 0, 0) (- 1) (- 1))))\<bar> \<le> 0.0000000001 \<and>
   scatterTriag_face (ray_on (- 1, 0, 1/4) (1, 0, 0) (- 1) (- 1)) flat_sample 0
       (far_nearest 100, 0) = (far_nearest 100, 0)"
proof -
  let ?r = "ray_on (1/4, 1, 1/4) (0, - 1, 0) (- 1) (- 1)"
  let ?q = "ray_on (- 1, 0, 1/4) (1, 0, 0) (- 1) (- 1)"
  note hit = scatterTriag_face_accepts
      [OF flat_sample_considered(1) flat_sample_element, of "(far_nearest 100, 0)"]
  note par = scatterTriag_face_accepts
      [OF flat_sample_considered(2) flat_sample_element, of "(far_nearest 100, 0)"]
  have big: "0.0000000001 <
      \<bar>det3 (triag_matrix (0, 0, 0) (1, 0, 0) (0, 0, 1) (direction ?r))\<bar>"
    by (simp add: ray_on_simps flat_sample_matrix)
  have small: "\<bar>det3 (triag_matrix (0, 0, 0) (1, 0, 0) (0, 0, 1) (direction ?q))\<bar>
      \<le> 0.0000000001"
    by (simp add: ray_on_simps flat_sample_matrix)
  from hit big obtain \<beta> \<gamma> t where
    p: "propagate (position ?r) (direction ?r) t =
          vadd (0, 0, 0) (vadd (vscale \<beta> (vsub (1, 0, 0) (0, 0, 0)))
                               (vscale \<gamma> (vsub (0, 0, 1) (0, 0, 0))))"
    and f: "scatterTriag_face ?r flat_sample 0 (far_nearest 100, 0) =
        (if \<beta> \<ge> 0 \<and> \<gamma> \<ge> 0 \<and> \<beta> + \<gamma> \<le> 1 \<and> t > 0 then
           (if dot (vsub (propagate (position ?r) (direction ?r) t) (position ?r))
                   (vsub (propagate (position ?r) (direction ?r) t) (position ?r))
                 < min_dist (fst (far_nearest 100, 0 :: int))
            then (fst (far_nearest 100, 0 :: int))\<lparr>min_dist :=
                   dot (vsub (propagate (position ?r) (direction ?r) t) (position ?r))
                       (vsub (propagate (position ?r) (direction ?r) t) (position ?r)),
                   tri_hit := 0, nearest_n := (0, 1, 0),
                   nearest_inter := propagate (position ?r) (direction ?r) t,
                   which_surface := Surface3D.surf_index flat_sample\<rparr>
            else fst (far_nearest 100, 0 :: int), 1)
         else (far_nearest 100, 0))"
    by blast
  from p have vals: "\<beta> = 1/4" "\<gamma> = 1/4" "t = 1"
    by (simp_all add: ray_on_simps)
  have one: "scatterTriag_face ?r flat_sample 0 (far_nearest 100, 0) =
     ((far_nearest 100)\<lparr>min_dist := 1, tri_hit := 0, nearest_n := (0, 1, 0),
        nearest_inter := (1/4, 0, 1/4), which_surface := 0\<rparr>, 1)"
    using f by (simp add: vals ray_on_simps far_nearest_simps flat_sample_simps)
  have two: "scatterTriag_face ?q flat_sample 0 (far_nearest 100, 0) = (far_nearest 100, 0)"
    using par small by blast
  show ?thesis
    using flat_sample_considered flat_sample_element big small one two by simp
qed

section \<open>Properties of \<open>multiBackWall\<close>\<close>

lemma below_one_aperture_test:
  "below_one (aperture_test wall_hit plate) = in_ellipse wall_hit plate"
  by (cases wall_hit; cases "aperture_c plate"; cases "aperture_axes plate")
     (simp add: below_one_def aperture_test_def in_ellipse_def Let_def power2_eq_square)

lemma aperture_loop_result:
  assumes "\<not> below_one test"
  shows "(\<exists>k. i \<le> k \<and> k < n_detect W \<and> aperture_loop W h i test w =
               (aperture_test h (get_nth_aperture k W), k + 1) \<and>
             in_ellipse h (get_nth_aperture k W) \<and>
             (\<forall>l. i \<le> l \<and> l < k \<longrightarrow> \<not> in_ellipse h (get_nth_aperture l W))) \<or>
         (\<not> below_one (fst (aperture_loop W h i test w)) \<and>
          snd (aperture_loop W h i test w) = w \<and>
          (\<forall>l. i \<le> l \<and> l < n_detect W \<longrightarrow> \<not> in_ellipse h (get_nth_aperture l W)))"
  using assms
proof (induction W h i test w rule: aperture_loop.induct)
  case (1 W h i test w)
  let ?t = "aperture_test h (get_nth_aperture i W)"
  show ?case
  proof (cases "i < n_detect W")
    case False
    then have stop: "aperture_loop W h i test w = (test, w)"
      by (subst aperture_loop.simps) simp
    have "\<forall>l. i \<le> l \<and> l < n_detect W \<longrightarrow> \<not> in_ellipse h (get_nth_aperture l W)"
      using False by auto
    then show ?thesis
      using "1.prems" stop by simp
  next
    case True
    show ?thesis
    proof (cases "below_one ?t")
      case inside: True
      have "aperture_loop W h i test w = (?t, i + 1)"
        using True inside by (subst aperture_loop.simps) (simp add: Let_def)
      moreover have "in_ellipse h (get_nth_aperture i W)"
        using inside by (simp add: below_one_aperture_test)
      ultimately show ?thesis
        using True by (intro disjI1 exI [of _ i]) auto
    next
      case outside: False
      have step: "aperture_loop W h i test w = aperture_loop W h (i + 1) ?t w"
        using True outside by (subst aperture_loop.simps) (simp add: Let_def)
      have out_i: "\<not> in_ellipse h (get_nth_aperture i W)"
        using outside by (simp add: below_one_aperture_test)
      have ih: "(\<exists>k. i + 1 \<le> k \<and> k < n_detect W \<and> aperture_loop W h (i + 1) ?t w =
               (aperture_test h (get_nth_aperture k W), k + 1) \<and>
             in_ellipse h (get_nth_aperture k W) \<and>
             (\<forall>l. i + 1 \<le> l \<and> l < k \<longrightarrow> \<not> in_ellipse h (get_nth_aperture l W))) \<or>
         (\<not> below_one (fst (aperture_loop W h (i + 1) ?t w)) \<and>
          snd (aperture_loop W h (i + 1) ?t w) = w \<and>
          (\<forall>l. i + 1 \<le> l \<and> l < n_detect W \<longrightarrow> \<not> in_ellipse h (get_nth_aperture l W)))"
        using "1.IH" [OF True refl refl outside outside] .
      have ext: "\<And>l m. i \<le> l \<Longrightarrow> l < m \<Longrightarrow>
            (\<forall>l. i + 1 \<le> l \<and> l < m \<longrightarrow> \<not> in_ellipse h (get_nth_aperture l W)) \<Longrightarrow>
            \<not> in_ellipse h (get_nth_aperture l W)"
      proof -
        fix l m
        assume "i \<le> l" "l < m"
          and rest: "\<forall>l. i + 1 \<le> l \<and> l < m \<longrightarrow> \<not> in_ellipse h (get_nth_aperture l W)"
        show "\<not> in_ellipse h (get_nth_aperture l W)"
        proof (cases "l = i")
          case True
          then show ?thesis using out_i by simp
        next
          case False
          then have "i + 1 \<le> l" using \<open>i \<le> l\<close> by simp
          then show ?thesis using rest \<open>l < m\<close> by blast
        qed
      qed
      from ih show ?thesis
      proof
        assume "\<exists>k. i + 1 \<le> k \<and> k < n_detect W \<and> aperture_loop W h (i + 1) ?t w =
               (aperture_test h (get_nth_aperture k W), k + 1) \<and>
             in_ellipse h (get_nth_aperture k W) \<and>
             (\<forall>l. i + 1 \<le> l \<and> l < k \<longrightarrow> \<not> in_ellipse h (get_nth_aperture l W))"
        then obtain k where k: "i + 1 \<le> k" "k < n_detect W"
            "aperture_loop W h (i + 1) ?t w = (aperture_test h (get_nth_aperture k W), k + 1)"
            "in_ellipse h (get_nth_aperture k W)"
            "\<forall>l. i + 1 \<le> l \<and> l < k \<longrightarrow> \<not> in_ellipse h (get_nth_aperture l W)"
          by blast
        have "\<forall>l. i \<le> l \<and> l < k \<longrightarrow> \<not> in_ellipse h (get_nth_aperture l W)"
          using ext k(5) by blast
        moreover have "i \<le> k" using k(1) by simp
        ultimately show ?thesis
          using k(2,3,4) step by (intro disjI1 exI [of _ k]) simp
      next
        assume none: "\<not> below_one (fst (aperture_loop W h (i + 1) ?t w)) \<and>
          snd (aperture_loop W h (i + 1) ?t w) = w \<and>
          (\<forall>l. i + 1 \<le> l \<and> l < n_detect W \<longrightarrow> \<not> in_ellipse h (get_nth_aperture l W))"
        then have "\<forall>l. i \<le> l \<and> l < n_detect W \<longrightarrow> \<not> in_ellipse h (get_nth_aperture l W)"
          using ext by blast
        then show ?thesis
          using none step by simp
      qed
    qed
  qed
qed

lemma first_containing_unique:
  assumes "first_containing W h k" and "first_containing W h k'"
  shows "k = k'"
proof (rule ccontr)
  assume "k \<noteq> k'"
  then consider "k < k'" | "k' < k" by linarith
  then show False
    using assms by cases (auto simp: first_containing_def)
qed

lemma aperture_loop_first:
  assumes "first_containing W h k"
  shows "aperture_loop W h 0 (Some 10) 0 = (aperture_test h (get_nth_aperture k W), k + 1)"
proof -
  have start: "\<not> below_one (Some 10)"
    by (simp add: below_one_def)
  from aperture_loop_result [OF start, of 0 W h 0]
  show ?thesis
  proof
    assume "\<exists>k. 0 \<le> k \<and> k < n_detect W \<and> aperture_loop W h 0 (Some 10) 0 =
               (aperture_test h (get_nth_aperture k W), k + 1) \<and>
             in_ellipse h (get_nth_aperture k W) \<and>
             (\<forall>l. 0 \<le> l \<and> l < k \<longrightarrow> \<not> in_ellipse h (get_nth_aperture l W))"
    then obtain k' where k': "first_containing W h k'"
        "aperture_loop W h 0 (Some 10) 0 = (aperture_test h (get_nth_aperture k' W), k' + 1)"
      by (auto simp: first_containing_def)
    then show ?thesis
      using first_containing_unique [OF assms k'(1)] by simp
  next
    assume "\<not> below_one (fst (aperture_loop W h 0 (Some 10) 0)) \<and>
          snd (aperture_loop W h 0 (Some 10) 0) = 0 \<and>
          (\<forall>l. 0 \<le> l \<and> l < n_detect W \<longrightarrow> \<not> in_ellipse h (get_nth_aperture l W))"
    then show ?thesis
      using assms by (auto simp: first_containing_def)
  qed
qed

lemma aperture_loop_none:
  assumes "none_containing W h"
  shows "\<not> below_one (fst (aperture_loop W h 0 (Some 10) 0)) \<and>
         snd (aperture_loop W h 0 (Some 10) 0) = 0"
proof -
  have start: "\<not> below_one (Some 10)"
    by (simp add: below_one_def)
  from aperture_loop_result [OF start, of 0 W h 0] assms
  show ?thesis
    by (auto simp: none_containing_def)
qed

lemma wall_hit_in_plane:
  assumes "fst (snd (direction the_ray)) > 0"
  shows "fst (snd (propagate (position the_ray) (direction the_ray) (wall_alpha the_ray))) = 0"
  using assms
  by (cases "position the_ray"; cases "direction the_ray") (simp add: wall_alpha_def)

lemma multiBackWall_cases:
  "fst (multiBackWall the_ray W st) = st \<or>
   (wall_alpha the_ray * wall_alpha the_ray < min_dist st \<and>
    fst (multiBackWall the_ray W st) =
      \<lparr>min_dist = wall_alpha the_ray * wall_alpha the_ray,
       nearest_inter = propagate (position the_ray) (direction the_ray) (wall_alpha the_ray),
       nearest_n = (0, - 1, 0), tri_hit = - 1,
       which_surface = NBackWall.surf_index W\<rparr>)"
  by (cases st) (auto simp: multiBackWall_def Let_def split: prod.splits)

text \<open>
  C3 (as the code has it): when \<open>d_y \<le> 0\<close> nothing is recorded. When \<open>d_y > 0\<close> the
  wall is met at \<open>\<alpha> = -e_y/d_y\<close>, in the plane \<open>y = 0\<close>. If \<open>\<alpha>\<^sup>2\<close> exceeds the current
  minimum nothing is recorded. If \<open>\<alpha>\<^sup>2\<close> is below the current minimum, the first
  aperture of the sequence whose ellipse contains the hit point gives the 1-based
  aperture index and the nearest-hit record becomes the wall hit; when no aperture
  contains the point, index 0 is reported, and a plate hit is recorded (\<open>meets = 1\<close>,
  nearest-hit record replaced) exactly when the point lies within the plate disc and
  \<open>plate_represent\<close> is set. The wall hit is the record with \<open>min_dist = \<alpha>\<^sup>2\<close>,
  \<open>nearest_inter\<close> the wall point, \<open>nearest_n = (0, -1, 0)\<close>, \<open>tri_hit = -1\<close> and
  \<open>which_surface\<close> the index of the plate. If \<open>\<alpha>\<^sup>2\<close> equals the current minimum the
  record is left as it is and no aperture is reported.
\<close>

theorem multiBackWall_first_aperture:
  fixes the_ray :: Ray3D and W :: NBackWall and st :: Nearest
  defines "alpha \<equiv> wall_alpha the_ray"
  defines "wall_hit \<equiv> propagate (position the_ray) (direction the_ray) (wall_alpha the_ray)"
  defines "wall_record \<equiv>
     \<lparr>min_dist = wall_alpha the_ray * wall_alpha the_ray,
      nearest_inter = propagate (position the_ray) (direction the_ray) (wall_alpha the_ray),
      nearest_n = (0, - 1, 0), tri_hit = - 1, which_surface = NBackWall.surf_index W\<rparr>"
  shows "(\<not> fst (snd (direction the_ray)) > 0 \<longrightarrow> multiBackWall the_ray W st = (st, 0, 0)) \<and>
         (fst (snd (direction the_ray)) > 0 \<longrightarrow>
            alpha = - fst (snd (position the_ray)) / fst (snd (direction the_ray)) \<and>
            fst (snd wall_hit) = 0 \<and>
            (alpha * alpha > min_dist st \<longrightarrow> multiBackWall the_ray W st = (st, 0, 0)) \<and>
            (alpha * alpha = min_dist st \<longrightarrow>
               multiBackWall the_ray W st =
                 (st, if on_plate_disc W wall_hit \<and> plate_represent W \<noteq> 0 then 1 else 0, 0)) \<and>
            (alpha * alpha < min_dist st \<longrightarrow>
               (\<forall>k. first_containing W wall_hit k \<longrightarrow>
                  multiBackWall the_ray W st = (wall_record, 0, k + 1)) \<and>
               (none_containing W wall_hit \<longrightarrow>
                  multiBackWall the_ray W st =
                    (if on_plate_disc W wall_hit \<and> plate_represent W \<noteq> 0
                     then (wall_record, 1, 0)
                     else (st, 0, 0)))))"
proof (intro conjI impI allI)
  assume "\<not> fst (snd (direction the_ray)) > 0"
  then show "multiBackWall the_ray W st = (st, 0, 0)"
    by (simp add: multiBackWall_def)
next
  assume "fst (snd (direction the_ray)) > 0"
  show "alpha = - fst (snd (position the_ray)) / fst (snd (direction the_ray))"
    by (cases "position the_ray"; cases "direction the_ray")
       (simp add: alpha_def wall_alpha_def)
next
  assume "fst (snd (direction the_ray)) > 0"
  then show "fst (snd wall_hit) = 0"
    unfolding wall_hit_def by (rule wall_hit_in_plane)
next
  assume "fst (snd (direction the_ray)) > 0" "alpha * alpha > min_dist st"
  then show "multiBackWall the_ray W st = (st, 0, 0)"
    by (simp add: multiBackWall_def alpha_def Let_def)
next
  assume dy: "fst (snd (direction the_ray)) > 0" and tie: "alpha * alpha = min_dist st"
  obtain t w where loop: "aperture_loop W wall_hit 0 (Some 10) 0 = (t, w)"
    by (cases "aperture_loop W wall_hit 0 (Some 10) 0")
  show "multiBackWall the_ray W st =
          (st, if on_plate_disc W wall_hit \<and> plate_represent W \<noteq> 0 then 1 else 0, 0)"
    using dy tie loop unfolding alpha_def wall_hit_def
    by (simp add: multiBackWall_def Let_def on_plate_disc_def)
next
  fix k
  assume dy: "fst (snd (direction the_ray)) > 0" and near: "alpha * alpha < min_dist st"
    and first: "first_containing W wall_hit k"
  have loop: "aperture_loop W wall_hit 0 (Some 10) 0 =
                (aperture_test wall_hit (get_nth_aperture k W), k + 1)"
    using first by (rule aperture_loop_first)
  have "below_one (aperture_test wall_hit (get_nth_aperture k W))"
    using first by (simp add: below_one_aperture_test first_containing_def)
  then show "multiBackWall the_ray W st = (wall_record, 0, k + 1)"
    using dy near loop unfolding alpha_def wall_hit_def wall_record_def
    by (cases st) (simp add: multiBackWall_def Let_def)
next
  assume dy: "fst (snd (direction the_ray)) > 0" and near: "alpha * alpha < min_dist st"
    and none: "none_containing W wall_hit"
  obtain t w where loop: "aperture_loop W wall_hit 0 (Some 10) 0 = (t, w)"
    by (cases "aperture_loop W wall_hit 0 (Some 10) 0")
  have "\<not> below_one t" "w = 0"
    using aperture_loop_none [OF none] loop by simp_all
  then show "multiBackWall the_ray W st =
                    (if on_plate_disc W wall_hit \<and> plate_represent W \<noteq> 0
                     then (wall_record, 1, 0)
                     else (st, 0, 0))"
    using dy near loop unfolding alpha_def wall_hit_def wall_record_def
    by (cases st) (simp add: multiBackWall_def Let_def on_plate_disc_def)
qed

theorem multiBackWall_first_aperture_witness:
  "0 < fst (snd (direction (ray_from (6/5, - 1, 0) (0, 1, 0)))) \<and>
   wall_alpha (ray_from (6/5, - 1, 0) (0, 1, 0)) * wall_alpha (ray_from (6/5, - 1, 0) (0, 1, 0))
     < min_dist (stale_nearest 100) \<and>
   first_containing two_aperture_wall (6/5, 0, 0) 1 \<and>
   multiBackWall (ray_from (6/5, - 1, 0) (0, 1, 0)) two_aperture_wall (stale_nearest 100) =
     (\<lparr>min_dist = 1, nearest_inter = (6/5, 0, 0), nearest_n = (0, - 1, 0), tri_hit = - 1,
       which_surface = 1\<rparr>, 0, 2) \<and>
   none_containing two_aperture_wall (3, 0, 0) \<and>
   multiBackWall (ray_from (3, - 1, 0) (0, 1, 0)) two_aperture_wall (stale_nearest 100) =
     (\<lparr>min_dist = 1, nearest_inter = (3, 0, 0), nearest_n = (0, - 1, 0), tri_hit = - 1,
       which_surface = 1\<rparr>, 1, 0) \<and>
   multiBackWall (ray_from (5, - 1, 0) (0, 1, 0)) two_aperture_wall (stale_nearest 100) =
     (stale_nearest 100, 0, 0) \<and>
   multiBackWall (ray_from (0, - 1, 0) (0, - 1, 0)) two_aperture_wall (stale_nearest 100) =
     (stale_nearest 100, 0, 0) \<and>
   min_dist (stale_nearest (1/2))
     < wall_alpha (ray_from (6/5, - 1, 0) (0, 1, 0)) * wall_alpha (ray_from (6/5, - 1, 0) (0, 1, 0)) \<and>
   multiBackWall (ray_from (6/5, - 1, 0) (0, 1, 0)) two_aperture_wall (stale_nearest (1/2)) =
     (stale_nearest (1/2), 0, 0) \<and>
   wall_alpha (ray_from (3, - 1, 0) (0, 1, 0)) * wall_alpha (ray_from (3, - 1, 0) (0, 1, 0))
     = min_dist (stale_nearest 1) \<and>
   multiBackWall (ray_from (3, - 1, 0) (0, 1, 0)) two_aperture_wall (stale_nearest 1) =
     (stale_nearest 1, 1, 0)"
  using multiBackWall_first_aperture
      [of "ray_from (6/5, - 1, 0) (0, 1, 0)" two_aperture_wall "stale_nearest 100"]
    multiBackWall_first_aperture
      [of "ray_from (6/5, - 1, 0) (0, 1, 0)" two_aperture_wall "stale_nearest (1/2)"]
    multiBackWall_first_aperture
      [of "ray_from (3, - 1, 0) (0, 1, 0)" two_aperture_wall "stale_nearest 100"]
    multiBackWall_first_aperture
      [of "ray_from (3, - 1, 0) (0, 1, 0)" two_aperture_wall "stale_nearest 1"]
    multiBackWall_first_aperture
      [of "ray_from (5, - 1, 0) (0, 1, 0)" two_aperture_wall "stale_nearest 100"]
    multiBackWall_first_aperture
      [of "ray_from (0, - 1, 0) (0, - 1, 0)" two_aperture_wall "stale_nearest 100"]
    two_aperture_wall_first
  by (simp add: upward_ray_simps stale_nearest_simps ray_from_simps two_aperture_wall_simps)

text \<open>
  C3 as stated fails when a nearer hit is already recorded: the ray meets the wall
  inside the first aperture at squared distance 1, the current minimum is \<open>1/4\<close>, and
  neither an aperture index nor a plate hit is reported.
\<close>

theorem multiBackWall_nearer_hit_counterexample:
  "0 < fst (snd (direction (ray_from (1/4, - 1, 0) (0, 1, 0)))) \<and>
   propagate (position (ray_from (1/4, - 1, 0) (0, 1, 0)))
     (direction (ray_from (1/4, - 1, 0) (0, 1, 0)))
     (wall_alpha (ray_from (1/4, - 1, 0) (0, 1, 0))) = (1/4, 0, 0) \<and>
   first_containing two_aperture_wall (1/4, 0, 0) 0 \<and>
   on_plate_disc two_aperture_wall (1/4, 0, 0) \<and>
   plate_represent two_aperture_wall = 1 \<and>
   multiBackWall (ray_from (1/4, - 1, 0) (0, 1, 0)) two_aperture_wall (far_nearest (1/4)) =
     (far_nearest (1/4), 0, 0)"
  using two_aperture_wall_first(1)
  by (simp add: upward_ray_simps multiBackWall_def far_nearest_simps on_plate_disc_def
      two_aperture_wall_simps)

text \<open>
  C10: the back-wall test asks nothing of the sign of \<open>\<alpha>\<close>. There is a ray with
  \<open>d_y > 0\<close> and \<open>e_y > 0\<close>, hence \<open>\<alpha> < 0\<close>, whose wall point behind the origin is
  recorded as a detection in aperture 1, and another whose wall point behind the
  origin is recorded as a plate hit: in both the nearest-hit record takes
  \<open>min_dist = \<alpha>\<^sup>2\<close>, the wall point, the wall normal, \<open>tri_hit = -1\<close> and the index of
  the plate. The two rays are given explicitly, from a record whose five fields all
  differ from the wall hit.
\<close>

theorem multiBackWall_no_positivity:
  "(\<exists>the_ray wallPlate st.
      0 < fst (snd (direction the_ray)) \<and> 0 < fst (snd (position the_ray)) \<and>
      wall_alpha the_ray < 0 \<and>
      wall_alpha the_ray * wall_alpha the_ray < min_dist st \<and>
      multiBackWall the_ray wallPlate st =
        (\<lparr>min_dist = wall_alpha the_ray * wall_alpha the_ray,
          nearest_inter =
            propagate (position the_ray) (direction the_ray) (wall_alpha the_ray),
          nearest_n = (0, - 1, 0), tri_hit = - 1,
          which_surface = NBackWall.surf_index wallPlate\<rparr>, 0, 1)) \<and>
   (\<exists>the_ray wallPlate st.
      0 < fst (snd (direction the_ray)) \<and> 0 < fst (snd (position the_ray)) \<and>
      wall_alpha the_ray < 0 \<and>
      wall_alpha the_ray * wall_alpha the_ray < min_dist st \<and>
      multiBackWall the_ray wallPlate st =
        (\<lparr>min_dist = wall_alpha the_ray * wall_alpha the_ray,
          nearest_inter =
            propagate (position the_ray) (direction the_ray) (wall_alpha the_ray),
          nearest_n = (0, - 1, 0), tri_hit = - 1,
          which_surface = NBackWall.surf_index wallPlate\<rparr>, 1, 0)) \<and>
   multiBackWall (ray_from (1/4, 1, 0) (0, 1, 0)) two_aperture_wall (stale_nearest 100) =
     (\<lparr>min_dist = 1, nearest_inter = (1/4, 0, 0), nearest_n = (0, - 1, 0), tri_hit = - 1,
       which_surface = 1\<rparr>, 0, 1) \<and>
   multiBackWall (ray_from (3, 1, 0) (0, 1, 0)) two_aperture_wall (stale_nearest 100) =
     (\<lparr>min_dist = 1, nearest_inter = (3, 0, 0), nearest_n = (0, - 1, 0), tri_hit = - 1,
       which_surface = 1\<rparr>, 1, 0)"
proof -
  have a: "multiBackWall (ray_from (1/4, 1, 0) (0, 1, 0)) two_aperture_wall (stale_nearest 100) =
     (\<lparr>min_dist = 1, nearest_inter = (1/4, 0, 0), nearest_n = (0, - 1, 0), tri_hit = - 1,
       which_surface = 1\<rparr>, 0, 1)"
    using aperture_loop_first [OF two_aperture_wall_first(1)]
    by (simp add: multiBackWall_def upward_ray_simps stale_nearest_def
        below_one_aperture_test two_aperture_wall_simps in_ellipse_def power2_eq_square)
  obtain t w where loop: "aperture_loop two_aperture_wall (3, 0, 0) 0 (Some 10) 0 = (t, w)"
    by (cases "aperture_loop two_aperture_wall (3, 0, 0) 0 (Some 10) 0")
  have tw: "\<not> below_one t" "w = 0"
    using aperture_loop_none [OF two_aperture_wall_first(3)] loop by simp_all
  have b: "multiBackWall (ray_from (3, 1, 0) (0, 1, 0)) two_aperture_wall (stale_nearest 100) =
     (\<lparr>min_dist = 1, nearest_inter = (3, 0, 0), nearest_n = (0, - 1, 0), tri_hit = - 1,
       which_surface = 1\<rparr>, 1, 0)"
    using loop tw
    by (simp add: multiBackWall_def upward_ray_simps stale_nearest_def
        two_aperture_wall_simps)
  have ea: "\<exists>the_ray wallPlate st.
      0 < fst (snd (direction the_ray)) \<and> 0 < fst (snd (position the_ray)) \<and>
      wall_alpha the_ray < 0 \<and>
      wall_alpha the_ray * wall_alpha the_ray < min_dist st \<and>
      multiBackWall the_ray wallPlate st =
        (\<lparr>min_dist = wall_alpha the_ray * wall_alpha the_ray,
          nearest_inter =
            propagate (position the_ray) (direction the_ray) (wall_alpha the_ray),
          nearest_n = (0, - 1, 0), tri_hit = - 1,
          which_surface = NBackWall.surf_index wallPlate\<rparr>, 0, 1)"
    by (rule exI [of _ "ray_from (1/4, 1, 0) (0, 1, 0)"], rule exI [of _ two_aperture_wall],
        rule exI [of _ "stale_nearest 100"])
       (simp add: a upward_ray_simps stale_nearest_simps two_aperture_wall_simps)
  have eb: "\<exists>the_ray wallPlate st.
      0 < fst (snd (direction the_ray)) \<and> 0 < fst (snd (position the_ray)) \<and>
      wall_alpha the_ray < 0 \<and>
      wall_alpha the_ray * wall_alpha the_ray < min_dist st \<and>
      multiBackWall the_ray wallPlate st =
        (\<lparr>min_dist = wall_alpha the_ray * wall_alpha the_ray,
          nearest_inter =
            propagate (position the_ray) (direction the_ray) (wall_alpha the_ray),
          nearest_n = (0, - 1, 0), tri_hit = - 1,
          which_surface = NBackWall.surf_index wallPlate\<rparr>, 1, 0)"
    by (rule exI [of _ "ray_from (3, 1, 0) (0, 1, 0)"], rule exI [of _ two_aperture_wall],
        rule exI [of _ "stale_nearest 100"])
       (simp add: b upward_ray_simps stale_nearest_simps two_aperture_wall_simps)
  show ?thesis
    using ea eb a b by blast
qed

section \<open>The tie-break of the nearest-hit record\<close>

text \<open>
  C5: each of the three routines, from any nearest-hit record, either leaves the
  record as it is or replaces it by a candidate whose squared distance is strictly
  below the previous minimum; hence on an exact tie the candidate evaluated earlier
  is retained, whatever the order of the routines. For the sample this holds for
  every single face as well as for the whole loop.
\<close>

theorem nearest_replaced_only_if_strictly_nearer:
  "(fst (scatterTriag the_ray sample st meets) = st \<or>
    min_dist (fst (scatterTriag the_ray sample st meets)) < min_dist st) \<and>
   (fst (scatterTriag_face the_ray sample j (st, meets)) = st \<or>
    min_dist (fst (scatterTriag_face the_ray sample j (st, meets))) < min_dist st \<and>
    tri_hit (fst (scatterTriag_face the_ray sample j (st, meets))) = j) \<and>
   (fst (scatterSphere the_ray the_sphere st) = st \<or>
    sphere_distance the_ray the_sphere * sphere_distance the_ray the_sphere < min_dist st \<and>
    min_dist (fst (scatterSphere the_ray the_sphere st)) =
      sphere_distance the_ray the_sphere * sphere_distance the_ray the_sphere) \<and>
   (fst (multiBackWall the_ray wallPlate st) = st \<or>
    wall_alpha the_ray * wall_alpha the_ray < min_dist st \<and>
    min_dist (fst (multiBackWall the_ray wallPlate st)) =
      wall_alpha the_ray * wall_alpha the_ray)"
proof (intro conjI)
  show "fst (scatterTriag the_ray sample st meets) = st \<or>
    min_dist (fst (scatterTriag the_ray sample st meets)) < min_dist st"
    using scatterTriag_strict [of the_ray sample 0 "(st, meets)"]
    by (simp add: scatterTriag_def)
  show "fst (scatterTriag_face the_ray sample j (st, meets)) = st \<or>
    min_dist (fst (scatterTriag_face the_ray sample j (st, meets))) < min_dist st \<and>
    tri_hit (fst (scatterTriag_face the_ray sample j (st, meets))) = j"
    using scatterTriag_face_cases [of the_ray sample j "(st, meets)"] by auto
  show "fst (scatterSphere the_ray the_sphere st) = st \<or>
    sphere_distance the_ray the_sphere * sphere_distance the_ray the_sphere < min_dist st \<and>
    min_dist (fst (scatterSphere the_ray the_sphere st)) =
      sphere_distance the_ray the_sphere * sphere_distance the_ray the_sphere"
    by (rule scatterSphere_cases)
  show "fst (multiBackWall the_ray wallPlate st) = st \<or>
    wall_alpha the_ray * wall_alpha the_ray < min_dist st \<and>
    min_dist (fst (multiBackWall the_ray wallPlate st)) =
      wall_alpha the_ray * wall_alpha the_ray"
    using multiBackWall_cases [of the_ray wallPlate st]
    by auto
qed

theorem nearest_replaced_only_if_strictly_nearer_witness:
  "min_dist (fst (scatterTriag (ray_on (1/4, 1, 1/4) (0, - 1, 0) (- 1) (- 1)) flat_sample
      (far_nearest 100) 0)) < min_dist (far_nearest 100) \<and>
   fst (scatterTriag (ray_on (1/4, 1, 1/4) (0, - 1, 0) (- 1) (- 1)) flat_sample
      (far_nearest 1) 0) = far_nearest 1 \<and>
   sphere_distance (ray_from (- 3, 0, 0) (1, 0, 0)) unit_sphere *
     sphere_distance (ray_from (- 3, 0, 0) (1, 0, 0)) unit_sphere = min_dist (far_nearest 4) \<and>
   fst (scatterSphere (ray_from (- 3, 0, 0) (1, 0, 0)) unit_sphere (far_nearest 4)) =
     far_nearest 4 \<and>
   wall_alpha (ray_from (1/4, - 1, 0) (0, 1, 0)) * wall_alpha (ray_from (1/4, - 1, 0) (0, 1, 0)) =
     min_dist (far_nearest 1) \<and>
   fst (multiBackWall (ray_from (1/4, - 1, 0) (0, 1, 0)) two_aperture_wall (far_nearest 1)) =
     far_nearest 1"
  using nearest_replaced_only_if_strictly_nearer
      [of "ray_on (1/4, 1, 1/4) (0, - 1, 0) (- 1) (- 1)" flat_sample "far_nearest 100" 0 0
          unit_sphere two_aperture_wall]
    nearest_replaced_only_if_strictly_nearer
      [of "ray_from (- 3, 0, 0) (1, 0, 0)" flat_sample "far_nearest 4" 0 0
          unit_sphere two_aperture_wall]
    nearest_replaced_only_if_strictly_nearer
      [of "ray_from (1/4, - 1, 0) (0, 1, 0)" flat_sample "far_nearest 1" 0 0
          unit_sphere two_aperture_wall]
  by (simp add: flat_sample_hit flat_sample_tie outside_ray_values upward_ray_simps
      far_nearest_simps)

section \<open>Properties of the propagator and the gateway\<close>







lemma ended_step:
  assumes "i < n"
  shows "ended sc rng maxScatters t i n =
           (if ray_outcome (gateway_scene sc) maxScatters (rng i) = t then 1 else 0) +
           ended sc rng maxScatters t (Suc i) n"
  using assms by (simp add: ended_def upt_conv_Cons)

lemma ended_empty:
  assumes "n \<le> i"
  shows "ended sc rng maxScatters t i n = 0"
  using assms by (simp add: ended_def)






subsection \<open>A run of the gateway on the bench\<close>

lemma bench_scene_simps:
  "scene_sample (gateway_scene bench_scene) = bench_sample\<lparr>Surface3D.surf_index := 0\<rparr>"
  "scene_plate (gateway_scene bench_scene) = bench_plate\<lparr>NBackWall.surf_index := 1\<rparr>"
  "scene_make_sphere (gateway_scene bench_scene) = 0"
  "scene_first_plate (gateway_scene bench_scene) = 1"
  "scene_far (gateway_scene bench_scene) = 100"
  by (simp_all add: gateway_scene_def bench_scene_def)

lemma bench_sample_simps:
  "n_faces (bench_sample\<lparr>Surface3D.surf_index := 0\<rparr>) = 1"
  "Surface3D.surf_index (bench_sample\<lparr>Surface3D.surf_index := 0\<rparr>) = 0"
  "get_element3D (bench_sample\<lparr>Surface3D.surf_index := 0\<rparr>) 0 =
     ((0, - 1, 0), (4, - 1, 0), (0, - 1, 4), (0, 1, 0))"
  by (simp_all add: bench_sample_def get_element3D_def)

lemma bench_plate_simps:
  "n_detect (bench_plate\<lparr>NBackWall.surf_index := 1\<rparr>) = 1"
  "get_nth_aperture 0 (bench_plate\<lparr>NBackWall.surf_index := 1\<rparr>) =
     \<lparr>aperture_c = (0, 0), aperture_axes = (2, 2)\<rparr>"
  "circle_plate_r (bench_plate\<lparr>NBackWall.surf_index := 1\<rparr>) = 4"
  "plate_represent (bench_plate\<lparr>NBackWall.surf_index := 1\<rparr>) = 1"
  "NBackWall.surf_index (bench_plate\<lparr>NBackWall.surf_index := 1\<rparr>) = 1"
  by (simp_all add: bench_plate_def get_nth_aperture_def)

lemmas bench_unfold =
  nearest_hit_def bench_scene_simps bench_sample_simps bench_plate_simps
  scatterTriag_def scatterTriag_loop.simps scatterTriag_face_def solve3x3_def epsilon_def
  multiBackWall_def wall_alpha_def aperture_loop.simps aperture_test_def below_one_def Let_def

lemma bench_sample_flight:
  "nearest_hit (gateway_scene bench_scene)
     \<lparr>position = (1/4, 0, 1/4), direction = (0, - 1, 0), nScatters = 0, on_surface = - 1,
      on_element = - 1\<rparr> =
   Surface_hit \<lparr>min_dist = 1, nearest_inter = (1/4, - 1, 1/4), nearest_n = (0, 1, 0),
     tri_hit = 0, which_surface = 0\<rparr>"
  by (simp add: bench_unfold)

lemma bench_aperture_flight:
  "nearest_hit (gateway_scene bench_scene)
     \<lparr>position = (1/4, - 1, 1/4), direction = (0, 1, 0), nScatters = 1, on_surface = 0,
      on_element = 0\<rparr> = Aperture_hit 1"
  by (simp add: bench_unfold)


lemma bench_far_sample_flight:
  "nearest_hit (gateway_scene bench_scene)
     \<lparr>position = (2, 0, 1), direction = (0, - 1, 0), nScatters = n, on_surface = a,
      on_element = - 1\<rparr> =
   Surface_hit \<lparr>min_dist = 1, nearest_inter = (2, - 1, 1), nearest_n = (0, 1, 0),
     tri_hit = 0, which_surface = 0\<rparr>"
  by (simp add: bench_unfold)

lemma bench_plate_flight:
  "nearest_hit (gateway_scene bench_scene)
     \<lparr>position = (2, - 1, 1), direction = (0, 1, 0), nScatters = 1, on_surface = 0,
      on_element = 0\<rparr> =
   Surface_hit \<lparr>min_dist = 1, nearest_inter = (2, 0, 1), nearest_n = (0, - 1, 0),
     tri_hit = - 1, which_surface = 1\<rparr>"
  by (simp add: bench_unfold)

lemma bench_miss_flight:
  "nearest_hit (gateway_scene bench_scene)
     \<lparr>position = (10, 0, 10), direction = (0, - 1, 0), nScatters = 0, on_surface = - 1,
      on_element = - 1\<rparr> = No_hit"
  by (simp add: bench_unfold)

lemma bench_rays:
  "ray_flight (gateway_scene bench_scene) bounce 3 (create_ray_source (1/4, 0, 1/4) (0, 1, 0)) =
     (Detected, \<lparr>position = (1/4, - 1, 1/4), direction = (0, 1, 0), nScatters = 1,
                 on_surface = 0, on_element = 0\<rparr>)"
  "ray_flight (gateway_scene bench_scene) bounce 3 (create_ray_source (2, 0, 1) (0, 1, 0)) =
     (Killed, \<lparr>position = (2, - 1, 1), direction = (0, 1, 0), nScatters = 3,
               on_surface = 0, on_element = 0\<rparr>)"
  "ray_flight (gateway_scene bench_scene) bounce 3 (create_ray_source (10, 0, 10) (0, 1, 0)) =
     (Escaped, \<lparr>position = (10, 0, 10), direction = (0, - 1, 0), nScatters = 0,
                on_surface = - 1, on_element = - 1\<rparr>)"
  by (simp_all add: create_ray_source_def ray_flight.simps scatter_ray_def bounce_def
      bench_sample_flight bench_aperture_flight bench_far_sample_flight bench_plate_flight
      bench_miss_flight)




lemma bench_ray_outcome:
  "ray_outcome (gateway_scene bench_scene) 3 (bench_rng i) =
     (if i = 1 then Killed else if i = 2 then Escaped else Detected)"
  by (simp add: ray_outcome_def bench_rng_def bench_rays)

lemma bench_outcomes:
  "ended bench_scene bench_rng 3 Detected 0 (nat 4) = 2"
  "ended bench_scene bench_rng 3 Killed 0 (nat 4) = 1"
  "ended bench_scene bench_rng 3 Escaped 0 (nat 4) = 1"
  by (simp_all add: ended_def bench_ray_outcome upt_rec)



subsection \<open>Scatter counts and tallies\<close>





text \<open>
  C8: when the number of inputs is not 18 or the number of requested outputs is not
  3, the gateway ends in \<open>mexErrMsgIdAndTxt\<close> whatever the other inputs are, and
  returns no outputs; the message for a wrong number of outputs asks for six
  outputs while the test is against three.
\<close>

theorem mexFunction_argument_check:
  assumes "nrhs \<noteq> 18 \<or> nlhs \<noteq> 3"
  shows "mexFunction nlhs nrhs maxScatters nrays sc rng =
           (if nrhs \<noteq> 18
            then Inl (MexError ''MyToolbox:tracingMex:nrhs''
                        ''Eighteen inputs required for tracingMex.'')
            else Inl (MexError ''MyToolbox:tracingMex:nrhs''
                        ''Six outpus required for tracingMex.''))"
  using assms by (simp add: mexFunction_def)

theorem mexFunction_argument_check_witness:
  "mexFunction 6 18 20 1 bench_scene bench_rng =
     Inl (MexError ''MyToolbox:tracingMex:nrhs'' ''Six outpus required for tracingMex.'') \<and>
   mexFunction 3 19 20 1 bench_scene bench_rng =
     Inl (MexError ''MyToolbox:tracingMex:nrhs'' ''Eighteen inputs required for tracingMex.'')"
  using mexFunction_argument_check [of 18 6 20 1 bench_scene bench_rng]
    mexFunction_argument_check [of 19 3 20 1 bench_scene bench_rng]
  by simp

end
